theory Spec2Isabelle
  imports Complex_Main
begin

section \<open>Data model\<close>

text \<open>
  A data point of the metrics API is a pair of a timestamp in milliseconds and a value
  (\<^verbatim>\<open>dps\<close> is a list of such pairs). Values are float64 in the program; a finite
  float is the real number it denotes. The aggregates of the library (minimum, maximum,
  mean, quantiles) and the percent changes are given exactly, without rounding. The
  arithmetic that decides which rows are outliers and where the axis limits lie is
  rounded as binary64 does. A metric of an API response is a dict with the
  keys \<^verbatim>\<open>metric\<close> and \<^verbatim>\<open>dps\<close>.

  A calendar date (\<^verbatim>\<open>datetime.date\<close>) is its day number, an \<open>int\<close>; adding
  \<^verbatim>\<open>timedelta(days=n)\<close> adds \<open>n\<close>, and \<^verbatim>\<open>(d1 - d2).days\<close> is the difference.
\<close>

type_synonym point = "int \<times> real"

record metric_data =
  metric :: string
  dps :: "point list"

section \<open>date_range_report.py: generate_date_ticks\<close>

text \<open>
  The \<^verbatim>\<open>while current < end_date\<close> loop of \<^verbatim>\<open>generate_date_ticks\<close>, with the loop
  variables \<^verbatim>\<open>current\<close> and \<^verbatim>\<open>date_list\<close> as arguments.
\<close>

function ticks_loop :: "int \<Rightarrow> int \<Rightarrow> int list \<Rightarrow> int list" where
  "ticks_loop current end_date date_list =
     (if current < end_date then
        (let next_date = current + 7 in
         ticks_loop next_date end_date
           (if next_date \<le> end_date then date_list @ [next_date] else date_list))
      else date_list)"
  by pat_completeness auto
termination
  by (relation "measure (\<lambda>(c, e, l). nat (e - c))") auto

declare ticks_loop.simps [simp del]

definition generate_date_ticks :: "int \<Rightarrow> int \<Rightarrow> int list" where
  "generate_date_ticks start_date end_date =
     (let date_list = ticks_loop start_date end_date [start_date]
      in if end_date \<notin> set date_list then date_list @ [end_date] else date_list)"

text \<open>\<^verbatim>\<open>ax.set_xlim(start_datetime.date(), end_datetime.date() + timedelta(days=1))\<close>\<close>

definition x_axis_range :: "int \<Rightarrow> int \<Rightarrow> int \<times> int" where
  "x_axis_range start_date end_date = (start_date, end_date + 1)"

section \<open>Dashboard grid layout\<close>

text \<open>
  \<^verbatim>\<open>cols = min(3, num_metrics)\<close>, \<^verbatim>\<open>rows = (num_metrics + cols - 1) // cols\<close>. Both
  \<^verbatim>\<open>create_dashboard\<close> and \<^verbatim>\<open>create_improved_dashboard\<close> return \<^verbatim>\<open>None\<close> on an empty metric
  list before the division is reached.
\<close>

definition grid_dims :: "nat \<Rightarrow> (nat \<times> nat) option" where
  "grid_dims num_metrics =
     (if num_metrics = 0 then None
      else (let cols = min 3 num_metrics;
                rows = (num_metrics + cols - 1) div cols
            in Some (rows, cols)))"

text \<open>
  \<^verbatim>\<open>plt.subplots(rows, cols)\<close> returns a single axes object for a 1 x 1 grid, a
  one-dimensional array for one row or one column, and a two-dimensional array otherwise.
  Both functions wrap the single object as \<^verbatim>\<open>np.array([axes])\<close>. \<^verbatim>\<open>date_range_report.py\<close>
  imports numpy as \<^verbatim>\<open>np\<close>; \<^verbatim>\<open>modules/reports/visualizer.py\<close> does not, so the name is
  unbound there and the statement raises \<^verbatim>\<open>NameError\<close>. Any other exception
  of a run, from the API or from the file system, is an \<open>Exception\<close> with its message.

  What one iteration of the \<^verbatim>\<open>for i, metric_data in enumerate(metrics_data)\<close> loop does with
  the metric at index \<open>i\<close>: \<open>Skipped\<close> is the \<^verbatim>\<open>continue\<close> on empty data points, before any
  subplot is taken; \<open>Cell r c\<close> is the subplot \<^verbatim>\<open>axes[i // cols, i % cols]\<close> of the
  two-dimensional array, \<open>Flat i\<close> the subplot \<^verbatim>\<open>axes[i]\<close> of the one-dimensional one. The
  loop ends at the \<^verbatim>\<open>break\<close> when \<open>i\<close> reaches \<open>rows * cols\<close>.
\<close>

datatype error = NameError | Exception string

datatype placement = Skipped | Flat nat | Cell nat nat

fun dashboard_loop :: "nat \<Rightarrow> nat \<Rightarrow> nat \<Rightarrow> metric_data list \<Rightarrow> placement list" where
  "dashboard_loop rows cols i [] = []"
| "dashboard_loop rows cols i (m # ms) =
     (if i \<ge> rows * cols then []
      else (if dps m = [] then Skipped
            else if rows > 1 \<and> cols > 1 then Cell (i div cols) (i mod cols)
            else Flat i)
             # dashboard_loop rows cols (Suc i) ms)"


text \<open>\<^verbatim>\<open>MetricsVisualizer.create_dashboard\<close> of \<^verbatim>\<open>modules/reports/visualizer.py\<close>.\<close>

definition create_dashboard :: "metric_data list \<Rightarrow> error + placement list option" where
  "create_dashboard metrics_data =
     (case grid_dims (length metrics_data) of
        None \<Rightarrow> Inr None
      | Some (rows, cols) \<Rightarrow>
          if rows = 1 \<and> cols = 1 then Inl NameError
          else Inr (Some (dashboard_loop rows cols 0 metrics_data)))"

section \<open>binary64 arithmetic\<close>

text \<open>
  The values of a metric are Python floats (IEEE 754 binary64), and the arithmetic the
  program does on them rounds: every operation returns the binary64 number nearest to its
  exact result, ties to the even significand, an infinity beyond the largest finite
  number, and NaN where the result is undefined. A finite float is the real number it
  denotes; \<open>Num 0\<close> stands for both zeros, which no operation used here tells apart.

  \<open>round_half_even\<close> rounds a real to the nearest integer, a tie to the even one.
\<close>

datatype pyfloat = Num real | PosInf | NegInf | NaN

definition round_half_even :: "real \<Rightarrow> int" where
  "round_half_even x =
     (let f = \<lfloor>x\<rfloor>; d = x - of_int f
      in if d < 1 / 2 then f else if 1 / 2 < d then f + 1 else if even f then f else f + 1)"

text \<open>
  The finite binary64 numbers are \<open>m * 2 ^ e\<close> with \<open>\<bar>m\<bar> < 2 ^ 53\<close> and
  \<open>- 1074 \<le> e \<le> 971\<close>. \<open>ulp_search a (- 1074)\<close> is the exponent of the unit in the last
  place at magnitude \<open>a\<close>: the least \<open>e\<close> from \<open>- 1074\<close> (the subnormal spacing) on with
  \<open>a < 2 ^ (e + 53)\<close>, and \<open>971\<close> for every larger magnitude. \<open>round64\<close> rounds the
  significand at that exponent; a result of magnitude \<open>2 ^ 1024\<close> or more overflows.
\<close>

function ulp_search :: "real \<Rightarrow> int \<Rightarrow> int" where
  "ulp_search a e = (if 971 \<le> e \<or> a < 2 powi (e + 53) then e else ulp_search a (e + 1))"
  by pat_completeness auto
termination
  by (relation "measure (\<lambda>(a, e). nat (971 - e))") auto

declare ulp_search.simps [simp del]

definition round64 :: "real \<Rightarrow> pyfloat" where
  "round64 x =
     (let e = ulp_search \<bar>x\<bar> (- 1074);
          r = of_int (round_half_even (x / 2 powi e)) * 2 powi e
      in if 2 powi 1024 \<le> r then PosInf
         else if r \<le> - (2 powi 1024) then NegInf
         else Num r)"


text \<open>
  Negation, addition, subtraction, multiplication and the comparisons of floats. A
  comparison with NaN is false.
\<close>

fun fneg :: "pyfloat \<Rightarrow> pyfloat" where
  "fneg (Num a) = Num (- a)"
| "fneg PosInf = NegInf"
| "fneg NegInf = PosInf"
| "fneg NaN = NaN"

fun fadd :: "pyfloat \<Rightarrow> pyfloat \<Rightarrow> pyfloat" where
  "fadd (Num a) (Num b) = round64 (a + b)"
| "fadd NaN y = NaN"
| "fadd x NaN = NaN"
| "fadd PosInf NegInf = NaN"
| "fadd NegInf PosInf = NaN"
| "fadd PosInf y = PosInf"
| "fadd x PosInf = PosInf"
| "fadd NegInf y = NegInf"
| "fadd x NegInf = NegInf"

definition fsub :: "pyfloat \<Rightarrow> pyfloat \<Rightarrow> pyfloat" where
  "fsub x y = fadd x (fneg y)"

fun fmul :: "pyfloat \<Rightarrow> pyfloat \<Rightarrow> pyfloat" where
  "fmul (Num a) (Num b) = round64 (a * b)"
| "fmul NaN y = NaN"
| "fmul x NaN = NaN"
| "fmul (Num a) y = (if a = 0 then NaN else if 0 < a then y else fneg y)"
| "fmul x (Num b) = (if b = 0 then NaN else if 0 < b then x else fneg x)"
| "fmul PosInf y = y"
| "fmul NegInf y = fneg y"

fun flt :: "pyfloat \<Rightarrow> pyfloat \<Rightarrow> bool" where
  "flt (Num a) (Num b) = (a < b)"
| "flt NaN y = False"
| "flt x NaN = False"
| "flt x NegInf = False"
| "flt PosInf y = False"
| "flt x PosInf = True"
| "flt NegInf y = True"

definition fgt :: "pyfloat \<Rightarrow> pyfloat \<Rightarrow> bool" where
  "fgt x y = flt y x"

text \<open>A column aggregate as a float: NaN when the column is empty.\<close>

definition to_float :: "real option \<Rightarrow> pyfloat" where
  "to_float v = (case v of None \<Rightarrow> NaN | Some x \<Rightarrow> Num x)"


section \<open>pandas column operations used by the program\<close>

text \<open>
  The aggregates of a float column. pandas returns NaN for the aggregate of an empty
  column; NaN is \<open>None\<close> here, so every aggregate is a \<open>real option\<close>. The values of the
  API are taken to be real numbers (no NaN among the data points).

  \<^verbatim>\<open>Series.min()\<close>, \<^verbatim>\<open>Series.max()\<close>, \<^verbatim>\<open>Series.mean()\<close>.
\<close>

definition list_min :: "'a::linorder list \<Rightarrow> 'a option" where
  "list_min xs = (case xs of [] \<Rightarrow> None | x # rest \<Rightarrow> Some (fold min rest x))"

definition list_max :: "'a::linorder list \<Rightarrow> 'a option" where
  "list_max xs = (case xs of [] \<Rightarrow> None | x # rest \<Rightarrow> Some (fold max rest x))"

definition series_mean :: "real list \<Rightarrow> real option" where
  "series_mean vs = (if vs = [] then None else Some (sum_list vs / real (length vs)))"

text \<open>
  \<^verbatim>\<open>Series.std()\<close> is the sample standard deviation (denominator n - 1, NaN below two
  values). Its square, the sample variance, is what is recorded here: it is a rational
  function of the values, and the standard deviation is its non-negative root.
\<close>

definition series_var :: "real list \<Rightarrow> real option" where
  "series_var vs =
     (if length vs < 2 then None
      else (let m = sum_list vs / real (length vs)
            in Some (sum_list (map (\<lambda>v. (v - m)\<^sup>2) vs) / real (length vs - 1))))"

text \<open>\<^verbatim>\<open>Series.median()\<close>: the middle value, or the mean of the two middle values.\<close>

definition series_median :: "real list \<Rightarrow> real option" where
  "series_median vs =
     (if vs = [] then None
      else (let s = sort vs; n = length vs
            in if odd n then Some (s ! (n div 2))
               else Some ((s ! (n div 2 - 1) + s ! (n div 2)) / 2)))"

text \<open>
  \<^verbatim>\<open>Series.quantile(q)\<close> with the default linear interpolation: on the sorted values
  \<open>s\<close>, at the position \<open>h = (n - 1) * q\<close>, between \<open>s ! floor h\<close> and its successor.
  pandas raises for \<open>q\<close> outside [0, 1]; the program only passes constants inside it.
\<close>

definition interpolate :: "real list \<Rightarrow> real \<Rightarrow> real" where
  "interpolate s h =
     (let lo = nat \<lfloor>h\<rfloor>;
          hi = min (lo + 1) (length s - 1)
      in s ! lo + (s ! hi - s ! lo) * (h - real lo))"

definition quantile :: "real list \<Rightarrow> real \<Rightarrow> real option" where
  "quantile vs q =
     (if vs = [] \<or> q < 0 \<or> 1 < q then None
      else Some (interpolate (sort vs) (real (length vs - 1) * q)))"

section \<open>modules/reports/data_processor.py\<close>

text \<open>
  \<^verbatim>\<open>process_metric_data\<close> builds the data frame: one row per data point, with the columns
  \<^verbatim>\<open>datetime\<close> (\<^verbatim>\<open>datetime.fromtimestamp(x/1000)\<close>, the local wall-clock time), \<^verbatim>\<open>date\<close>,
  \<^verbatim>\<open>hour\<close> and \<^verbatim>\<open>day_of_week\<close>. A data frame is the list of its data points here, and the
  derived columns are functions of a point. The local time zone is a fixed offset \<open>tz\<close>
  from UTC in milliseconds (a zone without daylight saving, such as KST); a local time is
  the number of milliseconds since the local 1970-01-01 00:00. Day 0 was a Thursday;
  \<open>day_of_week\<close> counts from Monday = 0, where pandas gives the day's name.
\<close>

definition datetime_of :: "int \<Rightarrow> point \<Rightarrow> int" where
  "datetime_of tz p = fst p + tz"

definition date_of :: "int \<Rightarrow> int" where
  "date_of t = t div 86400000"

definition hour_of :: "int \<Rightarrow> int" where
  "hour_of t = (t mod 86400000) div 3600000"

definition day_of_week :: "int \<Rightarrow> int" where
  "day_of_week t = (date_of t + 3) mod 7"

definition process_metric_data :: "metric_data \<Rightarrow> point list option" where
  "process_metric_data md = (if dps md = [] then None else Some (dps md))"

text \<open>\<^verbatim>\<open>df.groupby(key)['value'].mean().to_dict()\<close>, as an association list in key order.\<close>

definition group_mean :: "(point \<Rightarrow> int) \<Rightarrow> point list \<Rightarrow> (int \<times> real option) list" where
  "group_mean key df =
     map (\<lambda>k. (k, series_mean (map snd (filter (\<lambda>p. key p = k) df))))
         (sort (remdups (map key df)))"

record statistics =
  count :: nat
  min_v :: "real option"
  max_v :: "real option"
  mean :: "real option"
  median :: "real option"
  std_squared :: "real option"
  first_time :: "int option"
  last_time :: "int option"
  percentile_10 :: "real option"
  percentile_25 :: "real option"
  percentile_75 :: "real option"
  percentile_90 :: "real option"
  percentile_95 :: "real option"
  percentile_99 :: "real option"
  daily_avg :: "(int \<times> real option) list"
  hourly_avg :: "(int \<times> real option) list"
  day_of_week_avg :: "(int \<times> real option) list"

definition calculate_statistics :: "int \<Rightarrow> point list \<Rightarrow> statistics option" where
  "calculate_statistics tz df =
     (if df = [] then None
      else (let vs = map snd df in
        Some \<lparr> count = length df,
               min_v = list_min vs,
               max_v = list_max vs,
               mean = series_mean vs,
               median = series_median vs,
               std_squared = series_var vs,
               first_time = list_min (map (datetime_of tz) df),
               last_time = list_max (map (datetime_of tz) df),
               percentile_10 = quantile vs (10 / 100),
               percentile_25 = quantile vs (25 / 100),
               percentile_75 = quantile vs (75 / 100),
               percentile_90 = quantile vs (90 / 100),
               percentile_95 = quantile vs (95 / 100),
               percentile_99 = quantile vs (99 / 100),
               daily_avg = group_mean (\<lambda>p. date_of (datetime_of tz p)) df,
               hourly_avg = group_mean (\<lambda>p. hour_of (datetime_of tz p)) df,
               day_of_week_avg = group_mean (\<lambda>p. day_of_week (datetime_of tz p)) df \<rparr>))"



text \<open>
  \<^verbatim>\<open>compare_time_periods\<close>. A change is a Python float: a number, an infinity or NaN.
  The guard \<^verbatim>\<open>previous != 0\<close> holds for a NaN \<^verbatim>\<open>previous\<close>, and arithmetic with NaN gives
  NaN.
\<close>

record period_stats =
  p_mean :: "real option"
  p_max :: "real option"
  p_min :: "real option"
  p_std_squared :: "real option"
  start_date :: "int option"
  end_date :: "int option"
  p_count :: nat

record changes =
  mean_change :: pyfloat
  max_change :: pyfloat
  min_change :: pyfloat

record comparison =
  current_period :: period_stats
  previous_period :: period_stats
  period_changes :: changes

definition summarize_period :: "int \<Rightarrow> point list \<Rightarrow> period_stats" where
  "summarize_period tz period =
     \<lparr> p_mean = series_mean (map snd period),
       p_max = list_max (map snd period),
       p_min = list_min (map snd period),
       p_std_squared = series_var (map snd period),
       start_date = map_option date_of (list_min (map (datetime_of tz) period)),
       end_date = map_option date_of (list_max (map (datetime_of tz) period)),
       p_count = length period \<rparr>"

definition percent_change :: "real option \<Rightarrow> real option \<Rightarrow> pyfloat" where
  "percent_change cur prev =
     (if prev \<noteq> Some 0
      then (case (cur, prev) of
              (Some c, Some p) \<Rightarrow> Num ((c - p) / p * 100)
            | _ \<Rightarrow> NaN)
      else PosInf)"

definition compare_time_periods :: "int \<Rightarrow> point list \<Rightarrow> int \<Rightarrow> comparison option" where
  "compare_time_periods tz df period_days =
     (case (list_min (map (datetime_of tz) df), list_max (map (datetime_of tz) df)) of
        (Some lo, Some hi) \<Rightarrow>
          (let min_date = date_of lo;
               max_date = date_of hi;
               date_range = max_date - min_date
           in if date_range < period_days * 2 then None
              else (let mid_date = max_date - period_days;
                        current = filter (\<lambda>p. date_of (datetime_of tz p) > mid_date) df;
                        previous = filter (\<lambda>p. date_of (datetime_of tz p) \<le> mid_date) df;
                        current_stats = summarize_period tz current;
                        previous_stats = summarize_period tz previous
                    in Some \<lparr> current_period = current_stats,
                              previous_period = previous_stats,
                              period_changes =
                                \<lparr> mean_change = percent_change (p_mean current_stats)
                                                                (p_mean previous_stats),
                                  max_change = percent_change (p_max current_stats)
                                                               (p_max previous_stats),
                                  min_change = percent_change (p_min current_stats)
                                                               (p_min previous_stats) \<rparr> \<rparr>))
      | _ \<Rightarrow> None)"

section \<open>date_range_report.py: the chart of one metric\<close>

text \<open>
  \<^verbatim>\<open>create_improved_dashboard\<close> and \<^verbatim>\<open>create_individual_metrics\<close> run the same statements on
  every metric that has data points: they resample the series and set the limits of the
  Y axis. \<open>metric_chart\<close> below is that common part.

  A metric definition of the configuration is a dict; the keys read here are \<^verbatim>\<open>key\<close>,
  \<^verbatim>\<open>name\<close> and \<^verbatim>\<open>unit\<close>. \<^verbatim>\<open>{info.get('key'): info for info in metrics_info}\<close> keeps the last
  definition of a key; \<^verbatim>\<open>metric_info.get('name', metric_key)\<close> and
  \<^verbatim>\<open>metric_info.get('unit', '')\<close> fall back to the metric key and to the empty string.

  Strings are the byte sequences of their UTF-8 encoding: the two display names that the
  program compares with are \<^verbatim>\<open>CPU\<close>, a space and the three Hangul syllables of "usage
  rate", and the three syllables of "memory", a space and the same word.
\<close>

definition usage_rate :: string where
  "usage_rate = [CHR 0xEC, CHR 0x82, CHR 0xAC, CHR 0xEC, CHR 0x9A, CHR 0xA9,
                 CHR 0xEB, CHR 0xA5, CHR 0xA0]"

definition cpu_usage_name :: string where
  "cpu_usage_name = ''CPU '' @ usage_rate"

definition memory_usage_name :: string where
  "memory_usage_name =
     [CHR 0xEB, CHR 0xA9, CHR 0x94, CHR 0xEB, CHR 0xAA, CHR 0xA8, CHR 0xEB, CHR 0xA6, CHR 0xAC]
     @ '' '' @ usage_rate"

record metric_info =
  info_key :: string
  info_name :: "string option"
  info_unit :: "string option"

definition lookup_info :: "metric_info list \<Rightarrow> string \<Rightarrow> metric_info option" where
  "lookup_info metrics_info k =
     (case filter (\<lambda>i. info_key i = k) metrics_info of
        [] \<Rightarrow> None
      | i # rest \<Rightarrow> Some (last (i # rest)))"

definition metric_name_of :: "metric_info list \<Rightarrow> metric_data \<Rightarrow> string" where
  "metric_name_of metrics_info md =
     (case lookup_info metrics_info (metric md) of
        None \<Rightarrow> metric md
      | Some i \<Rightarrow> (case info_name i of None \<Rightarrow> metric md | Some n \<Rightarrow> n))"

definition unit_of :: "metric_info list \<Rightarrow> metric_data \<Rightarrow> string" where
  "unit_of metrics_info md =
     (case lookup_info metrics_info (metric md) of
        None \<Rightarrow> ''''
      | Some i \<Rightarrow> (case info_unit i of None \<Rightarrow> '''' | Some u \<Rightarrow> u))"

text \<open>
  \<^verbatim>\<open>date_range = (df['datetime'].max() - df['datetime'].min()).days + 1\<close>: the whole days
  of the span, plus one. The rule is a pandas frequency string, two, six or twelve hours.
\<close>

definition date_range_days :: "int \<Rightarrow> point list \<Rightarrow> int option" where
  "date_range_days tz df =
     (case (list_min (map (datetime_of tz) df), list_max (map (datetime_of tz) df)) of
        (Some lo, Some hi) \<Rightarrow> Some ((hi - lo) div 86400000 + 1)
      | _ \<Rightarrow> None)"

definition resample_rule :: "int \<Rightarrow> string" where
  "resample_rule date_range =
     (if date_range \<le> 7 then ''2H'' else if date_range \<le> 31 then ''6H'' else ''12H'')"

definition rule_width :: "string \<Rightarrow> int" where
  "rule_width r =
     (if r = ''2H'' then 2 * 3600000 else if r = ''6H'' then 6 * 3600000 else 12 * 3600000)"

text \<open>
  \<^verbatim>\<open>df.set_index('datetime')['value'].resample(rule).mean().reset_index()\<close>. The bins of
  pandas are the intervals \<open>[b, b + w)\<close> of width \<open>w\<close> that start at the multiples of \<open>w\<close>
  counted from midnight (a day is a multiple of each of the three widths), labelled by
  their start. The result has one row for every bin from the bin of the first data point
  to the bin of the last one, in order: the mean of the values in the bin, and NaN
  (\<open>None\<close>) for a bin without data points. The result of an empty frame is empty.
\<close>

definition bucket_values :: "int \<Rightarrow> int \<Rightarrow> int \<Rightarrow> point list \<Rightarrow> real list" where
  "bucket_values tz w b df =
     map snd (filter (\<lambda>p. b \<le> datetime_of tz p \<and> datetime_of tz p < b + w) df)"

definition resample :: "int \<Rightarrow> int \<Rightarrow> point list \<Rightarrow> (int \<times> real option) list" where
  "resample tz w df =
     (case (list_min (map (datetime_of tz) df), list_max (map (datetime_of tz) df)) of
        (Some lo, Some hi) \<Rightarrow>
          map (\<lambda>k. ((lo div w + k) * w, series_mean (bucket_values tz w ((lo div w + k) * w) df)))
              [0..hi div w - lo div w]
      | _ \<Rightarrow> [])"

text \<open>The values of a column without its NaN entries, which \<^verbatim>\<open>min()\<close> and \<^verbatim>\<open>max()\<close> skip.\<close>

definition dropna :: "(int \<times> real option) list \<Rightarrow> real list" where
  "dropna rows = concat (map (\<lambda>r. case snd r of None \<Rightarrow> [] | Some v \<Rightarrow> [v]) rows)"

text \<open>
  The float literals \<^verbatim>\<open>1.1\<close>, \<^verbatim>\<open>0.1\<close> and \<^verbatim>\<open>0.001\<close> denote the binary64 numbers nearest to
  those decimals. The builtins \<^verbatim>\<open>min(a, b)\<close> and \<^verbatim>\<open>max(a, b)\<close> return \<open>a\<close> unless \<open>b\<close> is
  smaller, respectively greater. \<open>feq\<close> is \<^verbatim>\<open>==\<close> on floats.
\<close>

definition float_1_1 :: real where
  "float_1_1 = 2476979795053773 / 2251799813685248"

definition float_0_1 :: real where
  "float_0_1 = 3602879701896397 / 36028797018963968"

definition float_0_001 :: real where
  "float_0_001 = 1152921504606847 / 1152921504606846976"

definition pymin :: "pyfloat \<Rightarrow> pyfloat \<Rightarrow> pyfloat" where
  "pymin a b = (if flt b a then b else a)"

definition pymax :: "pyfloat \<Rightarrow> pyfloat \<Rightarrow> pyfloat" where
  "pymax a b = (if fgt b a then b else a)"

fun feq :: "pyfloat \<Rightarrow> pyfloat \<Rightarrow> bool" where
  "feq (Num a) (Num b) = (a = b)"
| "feq PosInf PosInf = True"
| "feq NegInf NegInf = True"
| "feq x y = False"

text \<open>
  The arguments \<^verbatim>\<open>bottom\<close> and \<^verbatim>\<open>top\<close> of \<^verbatim>\<open>ax.set_ylim\<close>, from the unit, the display name,
  the raw frame \<open>df\<close> and the resampled frame.
\<close>

definition y_limits ::
    "string \<Rightarrow> string \<Rightarrow> point list \<Rightarrow> (int \<times> real option) list \<Rightarrow> pyfloat \<times> pyfloat" where
  "y_limits unit metric_name df df_resampled =
     (if unit = ''%'' then
        (if metric_name = cpu_usage_name \<or> metric_name = memory_usage_name then
           (let max_value = to_float (list_max (map snd df));
                y_max = pymin (Num 100) (fmul max_value (Num float_1_1))
            in (Num 0, y_max))
         else (Num 0, Num 100))
      else if df_resampled \<noteq> [] then
        (let min_value = to_float (list_min (dropna df_resampled));
             max_value = to_float (list_max (dropna df_resampled));
             data_range = fsub max_value min_value
         in if flt data_range (Num float_0_001) \<or> feq min_value max_value then
              (if feq max_value (Num 0) then (Num 0, Num 1)
               else (let margin = pymax (fmul max_value (Num float_0_1)) (Num float_0_1)
                     in (pymax (Num 0) (fsub min_value margin), fadd max_value margin)))
            else (let margin = fmul data_range (Num float_0_1)
                  in (pymax (Num 0) (fsub min_value margin), fadd max_value margin)))
      else (let max_value = to_float (list_max (map snd df))
            in (Num 0, fmul max_value (Num float_1_1))))"

text \<open>
  The chart of one metric: the frequency string, the resampled frame that is plotted and
  the Y limits. A metric without data points has no chart (the \<^verbatim>\<open>continue\<close> of the loop).
\<close>

record chart =
  rule :: string
  df_resampled :: "(int \<times> real option) list"
  ylim :: "pyfloat \<times> pyfloat"

definition metric_chart :: "int \<Rightarrow> metric_info list \<Rightarrow> metric_data \<Rightarrow> chart option" where
  "metric_chart tz metrics_info md =
     (case date_range_days tz (dps md) of
        None \<Rightarrow> None
      | Some date_range \<Rightarrow>
          (let r = resample_rule date_range;
               rows = resample tz (rule_width r) (dps md)
           in Some \<lparr> rule = r, df_resampled = rows,
                     ylim = y_limits (unit_of metrics_info md) (metric_name_of metrics_info md)
                              (dps md) rows \<rparr>))"

section \<open>The report runs: date_range_report.py and scheduled_reports.py\<close>




















section \<open>Properties of the binary64 rounding\<close>

lemma ulp_search_spec:
  "e0 \<le> 971 \<Longrightarrow>
     e0 \<le> ulp_search a e0 \<and> ulp_search a e0 \<le> 971
   \<and> (ulp_search a e0 < 971 \<longrightarrow> a < 2 powi (ulp_search a e0 + 53))
   \<and> (\<forall>k. e0 \<le> k \<and> k < ulp_search a e0 \<longrightarrow> 2 powi (k + 53) \<le> a)"
proof (induction a e0 rule: ulp_search.induct)
  case (1 a e)
  show ?case
  proof (cases "971 \<le> e \<or> a < 2 powi (e + 53)")
    case True
    then have eq: "ulp_search a e = e" by (subst ulp_search.simps) simp
    from True 1(2) show ?thesis unfolding eq by auto
  next
    case False
    then have eq: "ulp_search a e = ulp_search a (e + 1)" by (subst ulp_search.simps) simp
    from False have le: "e + 1 \<le> 971" by simp
    from False have ge: "2 powi (e + 53) \<le> a" by simp
    note ih = 1(1) [OF False le]
    have "\<forall>k. e \<le> k \<and> k < ulp_search a (e + 1) \<longrightarrow> 2 powi (k + 53) \<le> a"
    proof (intro allI impI)
      fix k assume k: "e \<le> k \<and> k < ulp_search a (e + 1)"
      show "2 powi (k + 53) \<le> a"
      proof (cases "k = e")
        case True
        with ge show ?thesis by simp
      next
        case False
        with k have "e + 1 \<le> k \<and> k < ulp_search a (e + 1)" by simp
        with ih show ?thesis by blast
      qed
    qed
    with ih show ?thesis unfolding eq by auto
  qed
qed

lemma ulp_search_eq:
  assumes lo: "- 1074 \<le> e" and hi: "e \<le> 971"
    and up: "a < 2 powi (e + 53)"
    and dn: "e = - 1074 \<or> 2 powi (e + 52) \<le> a"
  shows "ulp_search a (- 1074) = e"
proof -
  define r where "r = ulp_search a (- 1074)"
  have s: "- 1074 \<le> r" "r \<le> 971" "r < 971 \<longrightarrow> a < 2 powi (r + 53)"
    "\<forall>k. - 1074 \<le> k \<and> k < r \<longrightarrow> 2 powi (k + 53) \<le> a"
    using ulp_search_spec [of "- 1074" a] unfolding r_def by simp_all
  have "\<not> r < e"
  proof
    assume l: "r < e"
    with hi s(3) have "a < 2 powi (r + 53)" by simp
    also have "(2::real) powi (r + 53) \<le> 2 powi (e + 52)"
      using l by (intro power_int_increasing) simp_all
    finally have "a < 2 powi (e + 52)" .
    moreover from l s(1) dn have "2 powi (e + 52) \<le> a" by simp
    ultimately show False by simp
  qed
  moreover have "\<not> e < r"
  proof
    assume "e < r"
    with lo s(4) have "2 powi (e + 53) \<le> a" by blast
    with up show False by simp
  qed
  ultimately show ?thesis unfolding r_def by simp
qed

lemma round_half_even_of_int [simp]: "round_half_even (of_int k) = k"
  by (simp add: round_half_even_def)

lemma round64_exact:
  assumes x: "x = of_int m * 2 powi e" and m: "\<bar>m\<bar> < 2 ^ 53"
    and lo: "- 1074 \<le> e" and hi: "e \<le> 971"
  shows "round64 x = Num x"
proof -
  define r where "r = ulp_search \<bar>x\<bar> (- 1074)"
  have s: "- 1074 \<le> r" "r \<le> 971"
    "\<forall>k. - 1074 \<le> k \<and> k < r \<longrightarrow> 2 powi (k + 53) \<le> \<bar>x\<bar>"
    using ulp_search_spec [of "- 1074" "\<bar>x\<bar>"] unfolding r_def by simp_all
  have "real_of_int \<bar>m\<bar> < 2 ^ 53" using m by (metis of_int_less_numeral_power_cancel_iff)
  then have "real_of_int \<bar>m\<bar> * 2 powi e < 2 ^ 53 * 2 powi e"
    by (intro mult_strict_right_mono) simp_all
  also have "(2::real) ^ 53 * 2 powi e = 2 powi (e + 53)"
    by (simp add: power_int_add)
  finally have ax: "\<bar>x\<bar> < 2 powi (e + 53)"
    unfolding x by (simp add: abs_mult)
  have re: "r \<le> e"
  proof (rule ccontr)
    assume "\<not> r \<le> e"
    with lo s(3) have "2 powi (e + 53) \<le> \<bar>x\<bar>" by simp
    with ax show False by simp
  qed
  have "(2::real) powi e = 2 powi (e - r) * 2 powi r"
    by (simp add: power_int_add [symmetric])
  also have "(2::real) powi (e - r) = of_int (2 ^ nat (e - r))"
    using re by (simp add: power_int_def)
  finally have "x / 2 powi r = of_int (m * 2 ^ nat (e - r))"
    unfolding x by simp
  then have rd: "of_int (round_half_even (x / 2 powi r)) * 2 powi r = x"
    by (simp only: round_half_even_of_int) (simp add: x \<open>(2::real) powi e = 2 powi (e - r) * 2 powi r\<close> \<open>(2::real) powi (e - r) = of_int (2 ^ nat (e - r))\<close>)
  have "(2::real) powi (e + 53) \<le> 2 powi 1024"
    using hi by (intro power_int_increasing) simp_all
  with ax have b: "\<bar>x\<bar> < 2 powi 1024" by simp
  then have "\<not> 2 powi 1024 \<le> x" and "\<not> x \<le> - (2 powi 1024)" by linarith+
  then show ?thesis
    unfolding round64_def r_def [symmetric] Let_def rd by simp
qed

lemma round64_of_int:
  "\<bar>m\<bar> < 2 ^ 53 \<Longrightarrow> round64 (of_int m) = Num (of_int m)"
  using round64_exact [of "of_int m" m 0] by simp

lemma round64_0 [simp]: "round64 0 = Num 0"
  using round64_of_int [of 0] by simp

lemma round64_eval:
  assumes lo: "- 1074 \<le> e" and hi: "e < 971"
    and up: "\<bar>x\<bar> < 2 powi (e + 53)"
    and dn: "e = - 1074 \<or> 2 powi (e + 52) \<le> \<bar>x\<bar>"
  shows "round64 x = Num (of_int (round_half_even (x / 2 powi e)) * 2 powi e)"
proof -
  have eq: "ulp_search \<bar>x\<bar> (- 1074) = e"
    using lo hi up dn by (intro ulp_search_eq) simp_all
  define y where "y = x / 2 powi e"
  have "\<bar>y\<bar> < 2 ^ 53"
  proof -
    have "\<bar>y\<bar> = \<bar>x\<bar> / 2 powi e" unfolding y_def by (simp add: abs_divide)
    also have "\<dots> < 2 powi (e + 53) / 2 powi e"
      using up by (intro divide_strict_right_mono) simp_all
    also have "\<dots> = 2 ^ 53" by (simp add: power_int_add)
    finally show ?thesis .
  qed
  then have yb: "y < 2 ^ 53" "- (2 ^ 53) < y" by linarith+
  have f1: "\<lfloor>y\<rfloor> + 1 \<le> 2 ^ 53"
  proof -
    have "\<lfloor>y\<rfloor> < 2 ^ 53" using yb(1) by (simp add: floor_less_iff)
    then show ?thesis by simp
  qed
  have f2: "- (2 ^ 53) \<le> \<lfloor>y\<rfloor>" using yb(2) by (simp add: le_floor_iff)
  have "\<lfloor>y\<rfloor> \<le> round_half_even y" "round_half_even y \<le> \<lfloor>y\<rfloor> + 1"
    by (simp_all add: round_half_even_def Let_def)
  with f1 f2 have "\<bar>round_half_even y\<bar> \<le> 2 ^ 53" by linarith
  then have "\<bar>real_of_int (round_half_even y)\<bar> \<le> 2 ^ 53"
    by (metis of_int_abs of_int_le_numeral_power_cancel_iff)
  then have "\<bar>real_of_int (round_half_even y)\<bar> * 2 powi e \<le> 2 ^ 53 * 2 powi e"
    by (intro mult_right_mono) simp_all
  also have "(2::real) ^ 53 * 2 powi e = 2 powi (e + 53)" by (simp add: power_int_add)
  also have "\<dots> < 2 powi 1024" using hi by (intro power_int_strict_increasing) simp_all
  finally have "\<bar>real_of_int (round_half_even y) * 2 powi e\<bar> < 2 powi 1024"
    by (simp add: abs_mult)
  then have "\<not> 2 powi 1024 \<le> real_of_int (round_half_even y) * 2 powi e"
    and "\<not> real_of_int (round_half_even y) * 2 powi e \<le> - (2 powi 1024)" by linarith+
  then show ?thesis
    unfolding round64_def eq Let_def y_def [symmetric] by simp
qed

section \<open>Properties of generate_date_ticks\<close>

lemma cadence_shift:
  "map (\<lambda>k. c + 7 + 7 * k) [1..m - 1] = map (\<lambda>k. c + 7 * k) [2..(m::int)]"
proof (induction "nat m" arbitrary: m c)
  case 0
  then show ?case by simp
next
  case (Suc n)
  show ?case
  proof (cases "2 \<le> m")
    case False
    then show ?thesis by simp
  next
    case True
    then have a: "[2..m] = [2..m - 1] @ [m]" by (simp add: upto_rec2)
    from True have b: "[1..m - 1] = [1..m - 1 - 1] @ [m - 1]" by (simp add: upto_rec2)
    have "n = nat (m - 1)" using Suc.hyps(2) by simp
    from Suc.hyps(1) [OF this, of c] show ?thesis
      unfolding a b by simp
  qed
qed

lemma ticks_loop_eq:
  "ticks_loop c e l = l @ map (\<lambda>k. c + 7 * k) [1..(e - c) div 7]"
proof (induction c e l rule: ticks_loop.induct)
  case (1 c e l)
  show ?case
  proof (cases "c < e")
    case False
    then have "(e - c) div 7 \<le> 0" by simp
    then have "[1..(e - c) div 7] = []" by simp
    with False show ?thesis by (simp add: ticks_loop.simps)
  next
    case True
    show ?thesis
    proof (cases "c + 7 \<le> e")
      case False
      with True have m: "(e - c) div 7 = 0" by simp
      from False have "(e - (c + 7)) div 7 < 0" by simp
      then have n: "[1..(e - (c + 7)) div 7] = []" by simp
      from True False have "ticks_loop c e l = ticks_loop (c + 7) e l"
        by (subst ticks_loop.simps) (simp add: Let_def)
      also have "\<dots> = l" using "1.IH" [OF True refl] False n by simp
      finally show ?thesis using m by simp
    next
      case le: True
      define m where "m = (e - c) div 7"
      from le have m1: "1 \<le> m" unfolding m_def by simp
      have d: "(e - (c + 7)) div 7 = m - 1" unfolding m_def by simp
      have "ticks_loop c e l = ticks_loop (c + 7) e (l @ [c + 7])"
        using True le by (subst ticks_loop.simps) (simp add: Let_def)
      also have "\<dots> = (l @ [c + 7]) @ map (\<lambda>k. c + 7 + 7 * k) [1..m - 1]"
        using "1.IH" [OF True refl] le d by simp
      also have "map (\<lambda>k. c + 7 + 7 * k) [1..m - 1] = map (\<lambda>k. c + 7 * k) [2..m]"
        by (rule cadence_shift)
      also have "(l @ [c + 7]) @ map (\<lambda>k. c + 7 * k) [2..m] = l @ map (\<lambda>k. c + 7 * k) [1..m]"
        using m1 by (simp add: upto_rec1 [of 1 m])
      finally show ?thesis unfolding m_def .
    qed
  qed
qed

lemma cadence_eq:
  "s \<le> e \<Longrightarrow> s # map (\<lambda>k. s + 7 * k) [1..(e - s) div 7] = map (\<lambda>k. s + 7 * k) [0..(e - s) div 7]"
  by (simp add: upto_rec1 [of 0])

lemma cadence_mem:
  assumes "s \<le> e"
  shows "e \<in> set (map (\<lambda>k. s + 7 * k) [0..(e - s) div 7]) \<longleftrightarrow> (e - s) mod 7 = 0"
proof
  assume "e \<in> set (map (\<lambda>k. s + 7 * k) [0..(e - s) div 7])"
  then obtain k where "e = s + 7 * k" by auto
  then show "(e - s) mod 7 = 0" by simp
next
  assume m: "(e - s) mod 7 = 0"
  have e: "e = s + 7 * ((e - s) div 7)" using m by presburger
  have "0 \<le> (e - s) div 7" using assms by simp
  then have "(e - s) div 7 \<in> set [0..(e - s) div 7]" by simp
  then have "s + 7 * ((e - s) div 7) \<in> (\<lambda>k. s + 7 * k) ` set [0..(e - s) div 7]"
    by (rule imageI)
  with e show "e \<in> set (map (\<lambda>k. s + 7 * k) [0..(e - s) div 7])" by simp
qed


lemma ticks_closed_form:
  assumes "s \<le> e"
  shows "generate_date_ticks s e =
           map (\<lambda>k. s + 7 * k) [0..(e - s) div 7] @ (if (e - s) mod 7 = 0 then [] else [e])"
proof -
  have loop: "ticks_loop s e [s] = map (\<lambda>k. s + 7 * k) [0..(e - s) div 7]"
    using ticks_loop_eq [of s e "[s]"] cadence_eq [OF assms] by simp
  show ?thesis
    unfolding generate_date_ticks_def loop Let_def using cadence_mem [OF assms] by simp
qed

lemma cadence_bounds:
  assumes "s \<le> e" "d \<in> set (map (\<lambda>k. s + 7 * k) [0..(e - s) div 7])"
  shows "s \<le> d \<and> d \<le> (e::int)"
proof -
  from assms(2) obtain k where k: "0 \<le> k" "k \<le> (e - s) div 7" "d = s + 7 * k"
    by auto
  have "7 * ((e - s) div 7) \<le> e - s" by presburger
  with k show ?thesis by linarith
qed

lemma cadence_hd: "s \<le> e \<Longrightarrow> hd (map (\<lambda>k. s + 7 * k) [0..(e - s) div 7]) = (s::int)"
  by (simp add: upto_rec1 [of 0])

lemma cadence_last:
  "s \<le> e \<Longrightarrow> last (map (\<lambda>k. s + 7 * k) [0..(e - s) div 7]) = s + 7 * ((e - s) div 7)"
  by (simp add: last_map upto_rec2 [of 0])

text \<open>
  C8. For start \<le> end, the ticks are the dates start + 7k that do not exceed the end date
  (k = 0, 1, ...), followed by the end date when it is off the 7-day cadence. The first tick
  is the start date, the last is the end date, both are in the list, every tick lies between
  them, and the X axis spans from the start date to the day after the end date.
\<close>

theorem generate_date_ticks_spec:
  assumes "s \<le> e"
  shows "generate_date_ticks s e =
           map (\<lambda>k. s + 7 * k) [0..(e - s) div 7] @ (if (e - s) mod 7 = 0 then [] else [e])
         \<and> hd (generate_date_ticks s e) = s
         \<and> last (generate_date_ticks s e) = e
         \<and> s \<in> set (generate_date_ticks s e) \<and> e \<in> set (generate_date_ticks s e)
         \<and> (\<forall>d \<in> set (generate_date_ticks s e). s \<le> d \<and> d \<le> e)
         \<and> x_axis_range s e = (s, e + 1)"
proof -
  let ?m = "(e - s) div 7"
  let ?cad = "map (\<lambda>k. s + 7 * k) [0..?m]"
  let ?g = "generate_date_ticks s e"
  have m0: "0 \<le> ?m" using assms by simp
  note eq = ticks_closed_form [OF assms]
  have ne: "?cad \<noteq> []" using m0 by simp
  have h: "hd ?g = s" unfolding eq using ne cadence_hd [OF assms] by simp
  have l: "last ?g = e"
  proof (cases "(e - s) mod 7 = 0")
    case True
    then have "s + 7 * ?m = e" by presburger
    with True ne cadence_last [OF assms] show ?thesis unfolding eq by simp
  next
    case False
    then show ?thesis unfolding eq by simp
  qed
  have gne: "?g \<noteq> []" unfolding eq using ne by simp
  have bounds: "\<forall>d \<in> set ?g. s \<le> d \<and> d \<le> e"
  proof
    fix d assume "d \<in> set ?g"
    then have "d \<in> set ?cad \<or> d = e" unfolding eq by (simp split: if_splits)
    then show "s \<le> d \<and> d \<le> e"
      using cadence_bounds [OF assms, of d] assms by blast
  qed
  have sin: "s \<in> set ?g" using hd_in_set [OF gne] h by simp
  have ein: "e \<in> set ?g" using last_in_set [OF gne] l by simp
  have x: "x_axis_range s e = (s, e + 1)" by (simp add: x_axis_range_def)
  from eq h l sin ein bounds x show ?thesis by (intro conjI)
qed

theorem generate_date_ticks_spec_witness:
  "(0::int) \<le> 20 \<and> generate_date_ticks 0 20 = [0, 7, 14, 20] \<and> hd (generate_date_ticks 0 20) = 0
   \<and> last (generate_date_ticks 0 20) = 20 \<and> x_axis_range 0 20 = (0, 21)"
proof -
  have le: "(0::int) \<le> 20" by simp
  have m: "[0..(20 - 0) div 7] = [0, 1, (2::int)]" by (simp add: upto_rec1)
  note t = generate_date_ticks_spec [OF le]
  from t have "generate_date_ticks 0 20 = [0, 7, 14, 20]" unfolding m by simp
  moreover from t have "hd (generate_date_ticks 0 20) = 0" by blast
  moreover from t have "last (generate_date_ticks 0 20) = 20" by blast
  moreover from t have "x_axis_range 0 20 = (0, 21)" by simp
  ultimately show ?thesis using le by blast
qed

section \<open>Properties of the grid layout\<close>







text \<open>
  With a single metric, \<^verbatim>\<open>create_dashboard\<close> of the visualizer module stops at the unbound
  name \<^verbatim>\<open>np\<close> before the loop.
\<close>

lemma create_dashboard_single_metric:
  "create_dashboard [m] = Inl NameError"
  by (simp add: create_dashboard_def grid_dims_def Let_def)


section \<open>Properties of the statistics\<close>

lemma interpolate_between:
  assumes s: "sorted s" and h0: "0 \<le> h" and h1: "h \<le> real (length s - 1)" and ne: "s \<noteq> []"
  shows "s ! nat \<lfloor>h\<rfloor> \<le> interpolate s h"
    and "interpolate s h \<le> s ! min (nat \<lfloor>h\<rfloor> + 1) (length s - 1)"
proof -
  define lo where "lo = nat \<lfloor>h\<rfloor>"
  define hi where "hi = min (lo + 1) (length s - 1)"
  define f where "f = h - real lo"
  have lo_le: "real lo \<le> h" unfolding lo_def using h0 by (simp add: of_nat_floor)
  have lo_gt: "h < real lo + 1" unfolding lo_def using h0 by linarith
  have f0: "0 \<le> f" and f1: "f < 1" unfolding f_def using lo_le lo_gt by simp_all
  have "real lo \<le> real (length s - 1)" using lo_le h1 by simp
  then have lo_n: "lo \<le> length s - 1" by simp
  have "length s - 1 < length s" using ne by (cases s) simp_all
  then have hi_n: "hi < length s" unfolding hi_def by (simp add: min_less_iff_disj)
  have lo_hi: "lo \<le> hi" unfolding hi_def using lo_n by simp
  have le: "s ! lo \<le> s ! hi" using sorted_nth_mono [OF s lo_hi hi_n] .
  have eq: "interpolate s h = s ! lo + (s ! hi - s ! lo) * f"
    by (simp add: interpolate_def Let_def lo_def hi_def f_def)
  have "0 \<le> (s ! hi - s ! lo) * f" using le f0 by simp
  then show "s ! nat \<lfloor>h\<rfloor> \<le> interpolate s h" unfolding eq lo_def [symmetric] by simp
  have "(s ! hi - s ! lo) * f \<le> (s ! hi - s ! lo) * 1"
    using le f1 by (intro mult_left_mono) simp_all
  then show "interpolate s h \<le> s ! min (nat \<lfloor>h\<rfloor> + 1) (length s - 1)"
    unfolding eq lo_def [symmetric] hi_def [symmetric] by simp
qed

lemma interpolate_mono:
  assumes s: "sorted s" and ne: "s \<noteq> []"
    and a0: "0 \<le> a" and ab: "a \<le> b" and b1: "b \<le> real (length s - 1)"
  shows "interpolate s a \<le> interpolate s b"
proof -
  define la where "la = nat \<lfloor>a\<rfloor>"
  define lb where "lb = nat \<lfloor>b\<rfloor>"
  have b0: "0 \<le> b" using a0 ab by simp
  have a1: "a \<le> real (length s - 1)" using ab b1 by simp
  have lab: "la \<le> lb" unfolding la_def lb_def using ab by (simp add: floor_mono nat_mono)
  have "real lb \<le> b" unfolding lb_def using b0 by (simp add: of_nat_floor)
  then have "real lb \<le> real (length s - 1)" using b1 by simp
  then have lb_n: "lb \<le> length s - 1" by simp
  then have lb_lt: "lb < length s" using ne by (cases s) simp_all
  show ?thesis
  proof (cases "la = lb")
    case True
    define hi where "hi = min (la + 1) (length s - 1)"
    have "length s - 1 < length s" using ne by (cases s) simp_all
    then have hi_n: "hi < length s" unfolding hi_def by (simp add: min_less_iff_disj)
    have "la \<le> hi" unfolding hi_def using lb_n True by simp
    then have le: "s ! la \<le> s ! hi" using sorted_nth_mono [OF s _ hi_n] by simp
    have ea: "interpolate s a = s ! la + (s ! hi - s ! la) * (a - real la)"
      by (simp add: interpolate_def Let_def la_def hi_def)
    have eb: "interpolate s b = s ! la + (s ! hi - s ! la) * (b - real la)"
      using True by (simp add: interpolate_def Let_def la_def lb_def hi_def)
    have "(s ! hi - s ! la) * (a - real la) \<le> (s ! hi - s ! la) * (b - real la)"
      using le ab by (intro mult_left_mono) simp_all
    then show ?thesis unfolding ea eb by simp
  next
    case False
    with lab have lt: "la + 1 \<le> lb" by simp
    have "min (la + 1) (length s - 1) \<le> lb" using lt by simp
    then have "s ! min (la + 1) (length s - 1) \<le> s ! lb"
      using sorted_nth_mono [OF s _ lb_lt] by simp
    moreover have "interpolate s a \<le> s ! min (la + 1) (length s - 1)"
      unfolding la_def using interpolate_between(2) [OF s a0 a1 ne] .
    moreover have "s ! lb \<le> interpolate s b"
      unfolding lb_def using interpolate_between(1) [OF s b0 b1 ne] .
    ultimately show ?thesis by linarith
  qed
qed

lemma quantile_Some:
  "vs \<noteq> [] \<Longrightarrow> 0 \<le> q \<Longrightarrow> q \<le> 1 \<Longrightarrow>
   quantile vs q = Some (interpolate (sort vs) (real (length vs - 1) * q))"
  by (simp add: quantile_def)

lemma quantile_mono:
  assumes ne: "vs \<noteq> []" and p0: "0 \<le> p" and pq: "p \<le> q" and q1: "q \<le> 1"
  shows "interpolate (sort vs) (real (length vs - 1) * p)
           \<le> interpolate (sort vs) (real (length vs - 1) * q)"
proof -
  have "real (length vs - 1) * q \<le> real (length vs - 1) * 1"
    using q1 by (intro mult_left_mono) simp_all
  then have b: "real (length vs - 1) * q \<le> real (length (sort vs) - 1)" by simp
  have a: "0 \<le> real (length vs - 1) * p" using p0 by simp
  have ab: "real (length vs - 1) * p \<le> real (length vs - 1) * q"
    using pq by (intro mult_left_mono) simp_all
  have sne: "sort vs \<noteq> []" using ne by (metis length_0_conv length_sort)
  show ?thesis using interpolate_mono [OF sorted_sort sne a ab b] .
qed

lemma sort_nth0_Min:
  assumes "vs \<noteq> []" shows "sort vs ! 0 = Min (set vs)"
proof -
  have len: "0 < length (sort vs)" using assms by simp
  have "Min (set vs) = sort vs ! 0"
  proof (rule Min_eqI)
    show "finite (set vs)" by simp
    have "sort vs ! 0 \<in> set (sort vs)" using len by (rule nth_mem)
    then show "sort vs ! 0 \<in> set vs" by simp
    fix y assume "y \<in> set vs"
    then have "y \<in> set (sort vs)" by simp
    then obtain i where i: "i < length (sort vs)" "sort vs ! i = y"
      unfolding in_set_conv_nth by blast
    have "sort vs ! 0 \<le> sort vs ! i" by (rule sorted_nth_mono [OF sorted_sort _ i(1)]) simp
    with i show "sort vs ! 0 \<le> y" by simp
  qed
  then show ?thesis by simp
qed

lemma sort_last_Max:
  assumes "vs \<noteq> []" shows "sort vs ! (length vs - 1) = Max (set vs)"
proof -
  have len: "length vs - 1 < length (sort vs)" using assms by (cases vs) simp_all
  have "Max (set vs) = sort vs ! (length vs - 1)"
  proof (rule Max_eqI)
    show "finite (set vs)" by simp
    have "sort vs ! (length vs - 1) \<in> set (sort vs)" using len by (rule nth_mem)
    then show "sort vs ! (length vs - 1) \<in> set vs" by simp
    fix y assume "y \<in> set vs"
    then have "y \<in> set (sort vs)" by simp
    then obtain i where i: "i < length (sort vs)" "sort vs ! i = y"
      unfolding in_set_conv_nth by blast
    then have "i \<le> length vs - 1" by simp
    then have "sort vs ! i \<le> sort vs ! (length vs - 1)"
      by (rule sorted_nth_mono [OF sorted_sort _ len])
    with i show "y \<le> sort vs ! (length vs - 1)" by simp
  qed
  then show ?thesis by simp
qed

lemma list_min_Min: "vs \<noteq> [] \<Longrightarrow> list_min vs = Some (Min (set vs))"
proof (cases vs)
  case Nil
  assume "vs \<noteq> []"
  with Nil show ?thesis by simp
next
  case (Cons a rest)
  show ?thesis unfolding Cons list_min_def using Min.set_eq_fold [of a rest] by simp
qed

lemma list_max_Max: "vs \<noteq> [] \<Longrightarrow> list_max vs = Some (Max (set vs))"
proof (cases vs)
  case Nil
  assume "vs \<noteq> []"
  with Nil show ?thesis by simp
next
  case (Cons a rest)
  show ?thesis unfolding Cons list_max_def using Max.set_eq_fold [of a rest] by simp
qed

lemma interpolate_0: "s \<noteq> [] \<Longrightarrow> interpolate s 0 = s ! 0"
  by (simp add: interpolate_def)

lemma interpolate_top: "s \<noteq> [] \<Longrightarrow> interpolate s (real (length s - 1)) = s ! (length s - 1)"
  by (simp add: interpolate_def Let_def)

lemma median_is_quantile:
  assumes "vs \<noteq> []"
  shows "series_median vs = Some (interpolate (sort vs) (real (length vs - 1) * (1/2)))"
proof (cases "odd (length vs)")
  case True
  then obtain k where k: "length vs = 2 * k + 1" by (auto elim: oddE)
  have "real (length vs - 1) * (1/2) = real k" using k by simp
  moreover have "interpolate (sort vs) (real k) = sort vs ! k"
    by (simp add: interpolate_def Let_def)
  moreover have "length vs div 2 = k" using k by simp
  ultimately show ?thesis using assms True by (simp add: series_median_def Let_def)
next
  case False
  then obtain k where k: "length vs = 2 * k" by (auto elim: evenE)
  with assms have k1: "1 \<le> k" by (cases k) simp_all
  have h: "real (length vs - 1) * (1/2) = real (k - 1) + 1/2"
    using k k1 by (simp add: of_nat_diff field_simps)
  have fl: "\<lfloor>real (k - 1) + 1/2\<rfloor> = int (k - 1)" by linarith
  have hi: "min (k - 1 + 1) (length (sort vs) - 1) = k" using k k1 by simp
  have "interpolate (sort vs) (real (k - 1) + 1/2)
          = sort vs ! (k - 1) + (sort vs ! k - sort vs ! (k - 1)) * (1/2)"
    unfolding interpolate_def Let_def fl using hi by simp
  also have "\<dots> = (sort vs ! (k - 1) + sort vs ! k) / 2" by (simp add: field_simps)
  finally have "interpolate (sort vs) (real (length vs - 1) * (1/2))
                  = (sort vs ! (k - 1) + sort vs ! k) / 2" unfolding h .
  moreover have "length vs div 2 = k" using k by simp
  ultimately show ?thesis using assms False by (simp add: series_median_def Let_def)
qed


lemma calculate_statistics_fields:
  "df \<noteq> [] \<Longrightarrow>
   \<exists>st. calculate_statistics tz df = Some st
      \<and> min_v st = list_min (map snd df) \<and> max_v st = list_max (map snd df)
      \<and> median st = series_median (map snd df)
      \<and> percentile_10 st = quantile (map snd df) (10 / 100)
      \<and> percentile_25 st = quantile (map snd df) (25 / 100)
      \<and> percentile_75 st = quantile (map snd df) (75 / 100)
      \<and> percentile_90 st = quantile (map snd df) (90 / 100)
      \<and> percentile_95 st = quantile (map snd df) (95 / 100)
      \<and> percentile_99 st = quantile (map snd df) (99 / 100)"
  by (simp add: calculate_statistics_def Let_def)

text \<open>
  C1. For every non-empty series, \<open>calculate_statistics\<close> returns statistics whose minimum,
  percentiles, median and maximum are numbers in the order
  min \<le> p10 \<le> p25 \<le> median \<le> p75 \<le> p90 \<le> p95 \<le> p99 \<le> max, and each percentile p is
  the linear-interpolation quantile of the values at p/100.
\<close>

theorem calculate_statistics_ordering:
  assumes "df \<noteq> []"
  shows "\<exists>st mn p10 p25 md p75 p90 p95 p99 mx.
           calculate_statistics tz df = Some st
         \<and> min_v st = Some mn \<and> percentile_10 st = Some p10 \<and> percentile_25 st = Some p25
         \<and> median st = Some md \<and> percentile_75 st = Some p75 \<and> percentile_90 st = Some p90
         \<and> percentile_95 st = Some p95 \<and> percentile_99 st = Some p99 \<and> max_v st = Some mx
         \<and> mn \<le> p10 \<and> p10 \<le> p25 \<and> p25 \<le> md \<and> md \<le> p75 \<and> p75 \<le> p90
         \<and> p90 \<le> p95 \<and> p95 \<le> p99 \<and> p99 \<le> mx
         \<and> percentile_10 st = quantile (map snd df) (10 / 100)
         \<and> percentile_25 st = quantile (map snd df) (25 / 100)
         \<and> percentile_75 st = quantile (map snd df) (75 / 100)
         \<and> percentile_90 st = quantile (map snd df) (90 / 100)
         \<and> percentile_95 st = quantile (map snd df) (95 / 100)
         \<and> percentile_99 st = quantile (map snd df) (99 / 100)"
proof -
  define vs where "vs = map snd df"
  define Q where "Q q = interpolate (sort vs) (real (length vs - 1) * q)" for q
  have ne: "vs \<noteq> []" using assms by (simp add: vs_def)
  have sne: "sort vs \<noteq> []" using ne by (metis length_0_conv length_sort)
  from calculate_statistics_fields [OF assms, of tz]
  obtain st where st: "calculate_statistics tz df = Some st"
    and f_min: "min_v st = list_min vs" and f_max: "max_v st = list_max vs"
    and f_med: "median st = series_median vs"
    and f10: "percentile_10 st = quantile vs (10 / 100)"
    and f25: "percentile_25 st = quantile vs (25 / 100)"
    and f75: "percentile_75 st = quantile vs (75 / 100)"
    and f90: "percentile_90 st = quantile vs (90 / 100)"
    and f95: "percentile_95 st = quantile vs (95 / 100)"
    and f99: "percentile_99 st = quantile vs (99 / 100)"
    unfolding vs_def by blast
  have q: "\<And>q. 0 \<le> q \<Longrightarrow> q \<le> 1 \<Longrightarrow> quantile vs q = Some (Q q)"
    unfolding Q_def by (rule quantile_Some [OF ne])
  have m: "\<And>p q. 0 \<le> p \<Longrightarrow> p \<le> q \<Longrightarrow> q \<le> 1 \<Longrightarrow> Q p \<le> Q q"
    unfolding Q_def by (rule quantile_mono [OF ne])
  have mn: "min_v st = Some (Q 0)"
    unfolding f_min Q_def using list_min_Min [OF ne] sort_nth0_Min [OF ne] interpolate_0 [OF sne]
    by simp
  have "interpolate (sort vs) (real (length (sort vs) - 1)) = sort vs ! (length (sort vs) - 1)"
    by (rule interpolate_top [OF sne])
  then have mx: "max_v st = Some (Q 1)"
    unfolding f_max Q_def using list_max_Max [OF ne] sort_last_Max [OF ne] by simp
  have md: "median st = Some (Q (1/2))"
    unfolding f_med Q_def by (rule median_is_quantile [OF ne])
  have p10: "percentile_10 st = Some (Q (10 / 100))" unfolding f10 by (rule q) simp_all
  have p25: "percentile_25 st = Some (Q (25 / 100))" unfolding f25 by (rule q) simp_all
  have p75: "percentile_75 st = Some (Q (75 / 100))" unfolding f75 by (rule q) simp_all
  have p90: "percentile_90 st = Some (Q (90 / 100))" unfolding f90 by (rule q) simp_all
  have p95: "percentile_95 st = Some (Q (95 / 100))" unfolding f95 by (rule q) simp_all
  have p99: "percentile_99 st = Some (Q (99 / 100))" unfolding f99 by (rule q) simp_all
  have o1: "Q 0 \<le> Q (10 / 100)" by (rule m) simp_all
  have o2: "Q (10 / 100) \<le> Q (25 / 100)" by (rule m) simp_all
  have o3: "Q (25 / 100) \<le> Q (1 / 2)" by (rule m) simp_all
  have o4: "Q (1 / 2) \<le> Q (75 / 100)" by (rule m) simp_all
  have o5: "Q (75 / 100) \<le> Q (90 / 100)" by (rule m) simp_all
  have o6: "Q (90 / 100) \<le> Q (95 / 100)" by (rule m) simp_all
  have o7: "Q (95 / 100) \<le> Q (99 / 100)" by (rule m) simp_all
  have o8: "Q (99 / 100) \<le> Q 1" by (rule m) simp_all
  have "calculate_statistics tz df = Some st
         \<and> min_v st = Some (Q 0) \<and> percentile_10 st = Some (Q (10 / 100))
         \<and> percentile_25 st = Some (Q (25 / 100))
         \<and> median st = Some (Q (1 / 2)) \<and> percentile_75 st = Some (Q (75 / 100))
         \<and> percentile_90 st = Some (Q (90 / 100))
         \<and> percentile_95 st = Some (Q (95 / 100)) \<and> percentile_99 st = Some (Q (99 / 100))
         \<and> max_v st = Some (Q 1)
         \<and> Q 0 \<le> Q (10 / 100) \<and> Q (10 / 100) \<le> Q (25 / 100) \<and> Q (25 / 100) \<le> Q (1 / 2)
         \<and> Q (1 / 2) \<le> Q (75 / 100) \<and> Q (75 / 100) \<le> Q (90 / 100)
         \<and> Q (90 / 100) \<le> Q (95 / 100) \<and> Q (95 / 100) \<le> Q (99 / 100) \<and> Q (99 / 100) \<le> Q 1
         \<and> percentile_10 st = quantile vs (10 / 100)
         \<and> percentile_25 st = quantile vs (25 / 100)
         \<and> percentile_75 st = quantile vs (75 / 100)
         \<and> percentile_90 st = quantile vs (90 / 100)
         \<and> percentile_95 st = quantile vs (95 / 100)
         \<and> percentile_99 st = quantile vs (99 / 100)"
    by (intro conjI st mn mx md p10 p25 p75 p90 p95 p99 o1 o2 o3 o4 o5 o6 o7 o8
          f10 f25 f75 f90 f95 f99)
  then show ?thesis unfolding vs_def by blast
qed

lemma calculate_statistics_eval:
  "map_option (\<lambda>st. (min_v st, percentile_10 st, median st, percentile_99 st, max_v st))
     (calculate_statistics 0 [(0, 3), (60000, 1), (120000, 2), (180000, 5), (240000, 4)])
   = Some (Some 1, Some (7 / 5), Some 3, Some (124 / 25), Some 5)"
  by (simp add: calculate_statistics_def Let_def list_min_def list_max_def series_median_def
      quantile_def interpolate_def)

theorem calculate_statistics_ordering_witness:
  "[(0, 3), (60000, 1), (120000, 2), (180000, 5), (240000, 4)] \<noteq> ([] :: point list)
   \<and> (\<exists>st. calculate_statistics 0 [(0, 3), (60000, 1), (120000, 2), (180000, 5), (240000, 4)]
             = Some st
          \<and> min_v st = Some 1 \<and> percentile_10 st = Some (7 / 5) \<and> median st = Some 3
          \<and> percentile_99 st = Some (124 / 25) \<and> max_v st = Some 5)"
proof -
  let ?df = "[(0, 3), (60000, 1), (120000, 2), (180000, 5), (240000, 4)] :: point list"
  have ne: "?df \<noteq> []" by simp
  from calculate_statistics_ordering [OF ne, of 0]
  obtain st where st: "calculate_statistics 0 ?df = Some st" by blast
  from calculate_statistics_eval st
  have "min_v st = Some 1 \<and> percentile_10 st = Some (7 / 5) \<and> median st = Some 3
          \<and> percentile_99 st = Some (124 / 25) \<and> max_v st = Some 5" by simp
  with st ne show ?thesis by blast
qed

section \<open>Properties of the anomaly detection\<close>











section \<open>Properties of the period comparison\<close>

lemma date_of_mono: "a \<le> b \<Longrightarrow> date_of a \<le> date_of b"
  by (simp add: date_of_def zdiv_mono1)

lemma compare_time_periods_unfold:
  assumes "df \<noteq> []"
  shows "compare_time_periods tz df pd =
    (if date_of (Max (set (map (datetime_of tz) df)))
          - date_of (Min (set (map (datetime_of tz) df))) < pd * 2
     then None
     else Some \<lparr> current_period = summarize_period tz
                   (filter (\<lambda>p. date_of (datetime_of tz p)
                        > date_of (Max (set (map (datetime_of tz) df))) - pd) df),
                 previous_period = summarize_period tz
                   (filter (\<lambda>p. date_of (datetime_of tz p)
                        \<le> date_of (Max (set (map (datetime_of tz) df))) - pd) df),
                 period_changes =
                   \<lparr> mean_change = percent_change
                        (p_mean (summarize_period tz (filter (\<lambda>p. date_of (datetime_of tz p)
                           > date_of (Max (set (map (datetime_of tz) df))) - pd) df)))
                        (p_mean (summarize_period tz (filter (\<lambda>p. date_of (datetime_of tz p)
                           \<le> date_of (Max (set (map (datetime_of tz) df))) - pd) df))),
                     max_change = percent_change
                        (p_max (summarize_period tz (filter (\<lambda>p. date_of (datetime_of tz p)
                           > date_of (Max (set (map (datetime_of tz) df))) - pd) df)))
                        (p_max (summarize_period tz (filter (\<lambda>p. date_of (datetime_of tz p)
                           \<le> date_of (Max (set (map (datetime_of tz) df))) - pd) df))),
                     min_change = percent_change
                        (p_min (summarize_period tz (filter (\<lambda>p. date_of (datetime_of tz p)
                           > date_of (Max (set (map (datetime_of tz) df))) - pd) df)))
                        (p_min (summarize_period tz (filter (\<lambda>p. date_of (datetime_of tz p)
                           \<le> date_of (Max (set (map (datetime_of tz) df))) - pd) df))) \<rparr> \<rparr>)"
proof -
  have ne: "map (datetime_of tz) df \<noteq> []" using assms by simp
  show ?thesis
    unfolding compare_time_periods_def list_min_Min [OF ne] list_max_Max [OF ne]
    by (simp add: Let_def)
qed

lemma filter_partition_length:
  "length (filter (\<lambda>p. f p > (m::int)) df) + length (filter (\<lambda>p. f p \<le> m) df) = length df"
proof -
  have "(\<lambda>p. f p \<le> m) = (\<lambda>p. \<not> f p > m)" by (simp add: fun_eq_iff not_less)
  then show ?thesis using sum_length_filter_compl [of "\<lambda>p. f p > m" df] by simp
qed

text \<open>
  C3. For every non-empty series, \<open>compare_time_periods\<close> returns nothing exactly when
  (max_date - min_date).days < 2 * period_days (for every period_days, 7 being the
  default). Otherwise the current part is the rows whose calendar date is strictly after
  the boundary max_date - period_days, the previous part the rows whose date is on or
  before it, and the two counts add up to the number of rows.
\<close>

theorem compare_time_periods_gate:
  assumes "df \<noteq> []"
  shows "\<exists>lo hi.
           list_min (map (datetime_of tz) df) = Some lo
         \<and> list_max (map (datetime_of tz) df) = Some hi
         \<and> (compare_time_periods tz df pd = None \<longleftrightarrow> date_of hi - date_of lo < 2 * pd)
         \<and> (\<forall>r. compare_time_periods tz df pd = Some r \<longrightarrow>
               current_period r = summarize_period tz
                 (filter (\<lambda>p. date_of (datetime_of tz p) > date_of hi - pd) df)
             \<and> previous_period r = summarize_period tz
                 (filter (\<lambda>p. date_of (datetime_of tz p) \<le> date_of hi - pd) df)
             \<and> p_count (current_period r)
                 = length (filter (\<lambda>p. date_of (datetime_of tz p) > date_of hi - pd) df)
             \<and> p_count (previous_period r)
                 = length (filter (\<lambda>p. date_of (datetime_of tz p) \<le> date_of hi - pd) df)
             \<and> p_count (current_period r) + p_count (previous_period r) = length df)"
proof -
  define lo where "lo = Min (set (map (datetime_of tz) df))"
  define hi where "hi = Max (set (map (datetime_of tz) df))"
  have ne: "map (datetime_of tz) df \<noteq> []" using assms by simp
  have l: "list_min (map (datetime_of tz) df) = Some lo"
    unfolding lo_def by (rule list_min_Min [OF ne])
  have h: "list_max (map (datetime_of tz) df) = Some hi"
    unfolding hi_def by (rule list_max_Max [OF ne])
  note u = compare_time_periods_unfold [OF assms, of tz pd, folded lo_def hi_def]
  have g: "compare_time_periods tz df pd = None \<longleftrightarrow> date_of hi - date_of lo < 2 * pd"
    unfolding u by (simp add: mult.commute)
  have p: "\<forall>r. compare_time_periods tz df pd = Some r \<longrightarrow>
               current_period r = summarize_period tz
                 (filter (\<lambda>p. date_of (datetime_of tz p) > date_of hi - pd) df)
             \<and> previous_period r = summarize_period tz
                 (filter (\<lambda>p. date_of (datetime_of tz p) \<le> date_of hi - pd) df)
             \<and> p_count (current_period r)
                 = length (filter (\<lambda>p. date_of (datetime_of tz p) > date_of hi - pd) df)
             \<and> p_count (previous_period r)
                 = length (filter (\<lambda>p. date_of (datetime_of tz p) \<le> date_of hi - pd) df)
             \<and> p_count (current_period r) + p_count (previous_period r) = length df"
  proof (intro allI impI)
    fix r assume r: "compare_time_periods tz df pd = Some r"
    from r [unfolded u]
    have c: "current_period r = summarize_period tz
                 (filter (\<lambda>p. date_of (datetime_of tz p) > date_of hi - pd) df)"
      and q: "previous_period r = summarize_period tz
                 (filter (\<lambda>p. date_of (datetime_of tz p) \<le> date_of hi - pd) df)"
      by (auto split: if_splits)
    have cc: "p_count (current_period r)
                 = length (filter (\<lambda>p. date_of (datetime_of tz p) > date_of hi - pd) df)"
      unfolding c by (simp add: summarize_period_def)
    have cq: "p_count (previous_period r)
                 = length (filter (\<lambda>p. date_of (datetime_of tz p) \<le> date_of hi - pd) df)"
      unfolding q by (simp add: summarize_period_def)
    have s: "p_count (current_period r) + p_count (previous_period r) = length df"
      unfolding cc cq by (rule filter_partition_length)
    from c q cc cq s
    show "current_period r = summarize_period tz
                 (filter (\<lambda>p. date_of (datetime_of tz p) > date_of hi - pd) df)
             \<and> previous_period r = summarize_period tz
                 (filter (\<lambda>p. date_of (datetime_of tz p) \<le> date_of hi - pd) df)
             \<and> p_count (current_period r)
                 = length (filter (\<lambda>p. date_of (datetime_of tz p) > date_of hi - pd) df)
             \<and> p_count (previous_period r)
                 = length (filter (\<lambda>p. date_of (datetime_of tz p) \<le> date_of hi - pd) df)
             \<and> p_count (current_period r) + p_count (previous_period r) = length df"
      by (intro conjI)
  qed
  show ?thesis by (rule exI [of _ lo], rule exI [of _ hi]) (intro conjI l h g p)
qed


lemma datetime_eval_10:
  "list_min (map (datetime_of 0) [(0, 1), (864000000, 2)]) = Some 0
   \<and> list_max (map (datetime_of 0) [(0, 1), (864000000, 2)]) = Some 864000000"
  by (simp add: list_min_def list_max_def datetime_of_def)

lemma datetime_eval_15:
  "list_min (map (datetime_of 0) [(0, 1), (691200000, 2), (1296000000, 3)]) = Some 0
   \<and> list_max (map (datetime_of 0) [(0, 1), (691200000, 2), (1296000000, 3)])
       = Some 1296000000"
  by (simp add: list_min_def list_max_def datetime_of_def)

theorem compare_time_periods_gate_witness:
  "[(0, 1), (864000000, 2)] \<noteq> ([] :: point list)
   \<and> compare_time_periods 0 [(0, 1), (864000000, 2)] 7 = None
   \<and> (\<exists>r. compare_time_periods 0 [(0, 1), (691200000, 2), (1296000000, 3)] 7 = Some r
          \<and> p_count (current_period r) = 1 \<and> p_count (previous_period r) = 2
          \<and> p_count (current_period r) + p_count (previous_period r) = 3)"
proof -
  let ?a = "[(0, 1), (864000000, 2)] :: point list"
  let ?b = "[(0, 1), (691200000, 2), (1296000000, 3)] :: point list"
  have na: "?a \<noteq> []" and nb: "?b \<noteq> []" by simp_all
  from compare_time_periods_gate [OF na, of 0 7] datetime_eval_10
  have "compare_time_periods 0 ?a 7 = None \<longleftrightarrow> date_of 864000000 - date_of 0 < 2 * 7"
    by auto
  then have a: "compare_time_periods 0 ?a 7 = None" by (simp add: date_of_def)
  from compare_time_periods_gate [OF nb, of 0 7] datetime_eval_15
  have g: "compare_time_periods 0 ?b 7 = None \<longleftrightarrow> date_of 1296000000 - date_of 0 < 2 * 7"
    and p: "\<forall>r. compare_time_periods 0 ?b 7 = Some r \<longrightarrow>
             p_count (current_period r)
                 = length (filter (\<lambda>p. date_of (datetime_of 0 p) > date_of 1296000000 - 7) ?b)
             \<and> p_count (previous_period r)
                 = length (filter (\<lambda>p. date_of (datetime_of 0 p) \<le> date_of 1296000000 - 7) ?b)
             \<and> p_count (current_period r) + p_count (previous_period r) = length ?b"
    by auto
  from g have "compare_time_periods 0 ?b 7 \<noteq> None" by (simp add: date_of_def)
  then obtain r where r: "compare_time_periods 0 ?b 7 = Some r" by blast
  with p have "p_count (current_period r)
                 = length (filter (\<lambda>p. date_of (datetime_of 0 p) > date_of 1296000000 - 7) ?b)"
    and "p_count (previous_period r)
                 = length (filter (\<lambda>p. date_of (datetime_of 0 p) \<le> date_of 1296000000 - 7) ?b)"
    and s: "p_count (current_period r) + p_count (previous_period r) = length ?b"
    by blast+
  then have c: "p_count (current_period r) = 1" and q: "p_count (previous_period r) = 2"
    by (simp_all add: date_of_def datetime_of_def)
  from s have s3: "p_count (current_period r) + p_count (previous_period r) = 3" by simp
  from na a r c q s3 show ?thesis by blast
qed

lemma series_mean_Some: "vs \<noteq> [] \<Longrightarrow> \<exists>m. series_mean vs = Some m"
  by (simp add: series_mean_def)

lemma percent_change_Some:
  "percent_change (Some c) (Some p) = (if p \<noteq> 0 then Num ((c - p) / p * 100) else PosInf)"
  by (simp add: percent_change_def)

lemma periods_nonempty:
  assumes ne: "df \<noteq> []" and pd: "0 < pd"
    and span: "\<not> date_of (Max (set (map (datetime_of tz) df)))
                 - date_of (Min (set (map (datetime_of tz) df))) < pd * 2"
  shows "filter (\<lambda>p. date_of (datetime_of tz p)
            > date_of (Max (set (map (datetime_of tz) df))) - pd) df \<noteq> []"
    and "filter (\<lambda>p. date_of (datetime_of tz p)
            \<le> date_of (Max (set (map (datetime_of tz) df))) - pd) df \<noteq> []"
proof -
  let ?ts = "map (datetime_of tz) df"
  have fin: "finite (set ?ts)" and nes: "set ?ts \<noteq> {}" using ne by simp_all
  have "Max (set ?ts) \<in> set ?ts" by (rule Max_in [OF fin nes])
  then obtain p1 where p1: "p1 \<in> set df" "datetime_of tz p1 = Max (set ?ts)" by auto
  have "Min (set ?ts) \<in> set ?ts" by (rule Min_in [OF fin nes])
  then obtain p0 where p0: "p0 \<in> set df" "datetime_of tz p0 = Min (set ?ts)" by auto
  have "date_of (datetime_of tz p1) > date_of (Max (set ?ts)) - pd" using p1(2) pd by simp
  with p1(1) show "filter (\<lambda>p. date_of (datetime_of tz p) > date_of (Max (set ?ts)) - pd) df \<noteq> []"
    by (auto simp: filter_empty_conv)
  have "date_of (datetime_of tz p0) \<le> date_of (Max (set ?ts)) - pd" using p0(2) pd span by simp
  with p0(1) show "filter (\<lambda>p. date_of (datetime_of tz p) \<le> date_of (Max (set ?ts)) - pd) df \<noteq> []"
    by (auto simp: filter_empty_conv)
qed

lemma summarize_period_Some:
  assumes "period \<noteq> []"
  shows "\<exists>m x n. p_mean (summarize_period tz period) = Some m
               \<and> p_max (summarize_period tz period) = Some x
               \<and> p_min (summarize_period tz period) = Some n"
proof -
  have ne: "map snd period \<noteq> []" using assms by simp
  show ?thesis
    using series_mean_Some [OF ne] list_max_Max [OF ne] list_min_Min [OF ne]
    by (simp add: summarize_period_def)
qed

text \<open>
  C5, as amended. For a positive period_days, whenever \<open>compare_time_periods\<close> returns a
  comparison, the means, maxima and minima of both periods are numbers, and the change of
  each is (current - previous) / previous * 100 when the previous value is non-zero and
  plus infinity when it is zero, whatever the sign of current - previous.
\<close>

theorem percent_change_spec:
  assumes r: "compare_time_periods tz df pd = Some r" and pd: "0 < pd"
  shows "\<exists>cm pm cx px cn pn.
           p_mean (current_period r) = Some cm \<and> p_mean (previous_period r) = Some pm
         \<and> p_max (current_period r) = Some cx \<and> p_max (previous_period r) = Some px
         \<and> p_min (current_period r) = Some cn \<and> p_min (previous_period r) = Some pn
         \<and> mean_change (period_changes r)
             = (if pm \<noteq> 0 then Num ((cm - pm) / pm * 100) else PosInf)
         \<and> max_change (period_changes r)
             = (if px \<noteq> 0 then Num ((cx - px) / px * 100) else PosInf)
         \<and> min_change (period_changes r)
             = (if pn \<noteq> 0 then Num ((cn - pn) / pn * 100) else PosInf)"
proof -
  have ne: "df \<noteq> []" using r by (auto simp: compare_time_periods_def list_min_def)
  define hi where "hi = Max (set (map (datetime_of tz) df))"
  define cur where "cur = filter (\<lambda>p. date_of (datetime_of tz p) > date_of hi - pd) df"
  define prv where "prv = filter (\<lambda>p. date_of (datetime_of tz p) \<le> date_of hi - pd) df"
  note u = compare_time_periods_unfold [OF ne, of tz pd, folded hi_def, folded cur_def prv_def]
  from r [unfolded u]
  have span: "\<not> date_of hi - date_of (Min (set (map (datetime_of tz) df))) < pd * 2"
    by (simp split: if_splits)
  from r [unfolded u] span
  have c: "current_period r = summarize_period tz cur"
    and q: "previous_period r = summarize_period tz prv"
    and ch: "period_changes r =
       \<lparr> mean_change = percent_change (p_mean (summarize_period tz cur))
                                       (p_mean (summarize_period tz prv)),
         max_change = percent_change (p_max (summarize_period tz cur))
                                      (p_max (summarize_period tz prv)),
         min_change = percent_change (p_min (summarize_period tz cur))
                                      (p_min (summarize_period tz prv)) \<rparr>"
    by auto
  have cne: "cur \<noteq> []" unfolding cur_def hi_def
    by (rule periods_nonempty(1) [OF ne pd span [unfolded hi_def]])
  have pne: "prv \<noteq> []" unfolding prv_def hi_def
    by (rule periods_nonempty(2) [OF ne pd span [unfolded hi_def]])
  from summarize_period_Some [OF cne, of tz]
  obtain cm cx cn where cs: "p_mean (summarize_period tz cur) = Some cm"
    "p_max (summarize_period tz cur) = Some cx" "p_min (summarize_period tz cur) = Some cn"
    by blast
  from summarize_period_Some [OF pne, of tz]
  obtain pm px pn where ps: "p_mean (summarize_period tz prv) = Some pm"
    "p_max (summarize_period tz prv) = Some px" "p_min (summarize_period tz prv) = Some pn"
    by blast
  have m1: "mean_change (period_changes r)
             = (if pm \<noteq> 0 then Num ((cm - pm) / pm * 100) else PosInf)"
    unfolding ch cs ps by (simp add: percent_change_Some)
  have m2: "max_change (period_changes r)
             = (if px \<noteq> 0 then Num ((cx - px) / px * 100) else PosInf)"
    unfolding ch cs ps by (simp add: percent_change_Some)
  have m3: "min_change (period_changes r)
             = (if pn \<noteq> 0 then Num ((cn - pn) / pn * 100) else PosInf)"
    unfolding ch cs ps by (simp add: percent_change_Some)
  have "p_mean (current_period r) = Some cm \<and> p_mean (previous_period r) = Some pm
         \<and> p_max (current_period r) = Some cx \<and> p_max (previous_period r) = Some px
         \<and> p_min (current_period r) = Some cn \<and> p_min (previous_period r) = Some pn
         \<and> mean_change (period_changes r)
             = (if pm \<noteq> 0 then Num ((cm - pm) / pm * 100) else PosInf)
         \<and> max_change (period_changes r)
             = (if px \<noteq> 0 then Num ((cx - px) / px * 100) else PosInf)
         \<and> min_change (period_changes r)
             = (if pn \<noteq> 0 then Num ((cn - pn) / pn * 100) else PosInf)"
    unfolding c q using cs ps m1 m2 m3 by (intro conjI)
  then show ?thesis by blast
qed

lemma compare_eval_negative:
  "compare_time_periods 0 [(0, 0), (1296000000, - 1)] 7
   = Some \<lparr> current_period =
             \<lparr> p_mean = Some (- 1), p_max = Some (- 1), p_min = Some (- 1),
               p_std_squared = None, start_date = Some 15, end_date = Some 15, p_count = 1 \<rparr>,
            previous_period =
             \<lparr> p_mean = Some 0, p_max = Some 0, p_min = Some 0,
               p_std_squared = None, start_date = Some 0, end_date = Some 0, p_count = 1 \<rparr>,
            period_changes =
             \<lparr> mean_change = PosInf, max_change = PosInf, min_change = PosInf \<rparr> \<rparr>"
  by (simp add: compare_time_periods_def list_min_def list_max_def datetime_of_def date_of_def
      Let_def summarize_period_def series_mean_def series_var_def percent_change_def)

text \<open>
  C5 as stated fails: with a previous mean of 0 and a current mean of -1 the numerator is
  negative, and the change is plus infinity, not minus infinity.
\<close>

theorem percent_change_sign_counterexample:
  "map_option (p_mean \<circ> current_period)
     (compare_time_periods 0 [(0, 0), (1296000000, - 1)] 7) = Some (Some (- 1))
   \<and> map_option (p_mean \<circ> previous_period)
     (compare_time_periods 0 [(0, 0), (1296000000, - 1)] 7) = Some (Some 0)
   \<and> map_option (mean_change \<circ> period_changes)
     (compare_time_periods 0 [(0, 0), (1296000000, - 1)] 7) = Some PosInf
   \<and> map_option (mean_change \<circ> period_changes)
     (compare_time_periods 0 [(0, 0), (1296000000, - 1)] 7) \<noteq> Some NegInf"
  by (simp add: compare_eval_negative)

theorem percent_change_spec_witness:
  "(0::int) < 7
   \<and> (\<exists>r. compare_time_periods 0 [(0, 0), (1296000000, - 1)] 7 = Some r
        \<and> mean_change (period_changes r) = PosInf
        \<and> max_change (period_changes r) = PosInf
        \<and> min_change (period_changes r) = PosInf)
   \<and> (\<exists>r. compare_time_periods 0 [(0, 2), (1209600005, 3)] 7 = Some r
        \<and> mean_change (period_changes r) = Num 50)"
proof -
  have pd: "(0::int) < 7" by simp
  obtain r where r: "compare_time_periods 0 [(0, 0), (1296000000, - 1)] 7 = Some r"
    using compare_eval_negative by blast
  from percent_change_spec [OF r pd] r [unfolded compare_eval_negative]
  have a: "mean_change (period_changes r) = PosInf \<and> max_change (period_changes r) = PosInf
        \<and> min_change (period_changes r) = PosInf" by auto
  have "compare_time_periods 0 [(0, 2), (1209600005, 3)] 7 \<noteq> None"
    by (simp add: compare_time_periods_def list_min_def list_max_def datetime_of_def date_of_def
        Let_def)
  then obtain s where s: "compare_time_periods 0 [(0, 2), (1209600005, 3)] 7 = Some s" by blast
  have cur: "p_mean (current_period s) = Some 3" and prv: "p_mean (previous_period s) = Some 2"
    using s by (auto simp: compare_time_periods_def list_min_def list_max_def datetime_of_def
        date_of_def Let_def summarize_period_def series_mean_def)
  from percent_change_spec [OF s pd] cur prv
  have b: "mean_change (period_changes s) = Num 50" by auto
  from pd r a s b show ?thesis by blast
qed

section \<open>Properties of the chart of a metric\<close>

lemma times_min_max:
  assumes "df \<noteq> []"
  shows "\<exists>lo hi. list_min (map (datetime_of tz) df) = Some lo
               \<and> list_max (map (datetime_of tz) df) = Some hi
               \<and> lo \<le> hi
               \<and> (\<exists>p \<in> set df. datetime_of tz p = lo)
               \<and> (\<forall>p \<in> set df. lo \<le> datetime_of tz p \<and> datetime_of tz p \<le> hi)"
proof -
  let ?ts = "map (datetime_of tz) df"
  have ne: "?ts \<noteq> []" using assms by simp
  have fin: "finite (set ?ts)" and nemp: "set ?ts \<noteq> {}" using assms by simp_all
  have l: "list_min ?ts = Some (Min (set ?ts))" by (rule list_min_Min [OF ne])
  have h: "list_max ?ts = Some (Max (set ?ts))" by (rule list_max_Max [OF ne])
  have "Min (set ?ts) \<in> set ?ts" by (rule Min_in [OF fin nemp])
  then have ex: "\<exists>p \<in> set df. datetime_of tz p = Min (set ?ts)" by auto
  have bd: "\<forall>p \<in> set df. Min (set ?ts) \<le> datetime_of tz p \<and> datetime_of tz p \<le> Max (set ?ts)"
  proof
    fix p assume "p \<in> set df"
    then have "datetime_of tz p \<in> set ?ts" by simp
    then show "Min (set ?ts) \<le> datetime_of tz p \<and> datetime_of tz p \<le> Max (set ?ts)"
      using fin by (simp only: Min_le Max_ge)
  qed
  from ex obtain p0 where p0: "p0 \<in> set df" by blast
  with bd have "Min (set ?ts) \<le> datetime_of tz p0" "datetime_of tz p0 \<le> Max (set ?ts)"
    by blast+
  then have "Min (set ?ts) \<le> Max (set ?ts)" by linarith
  with l h ex bd show ?thesis by blast
qed

lemma resample_rows:
  assumes "list_min (map (datetime_of tz) df) = Some lo"
    and "list_max (map (datetime_of tz) df) = Some hi"
  shows "resample tz w df =
           map (\<lambda>k. ((lo div w + k) * w,
                     series_mean (bucket_values tz w ((lo div w + k) * w) df)))
               [0..hi div w - lo div w]"
  using assms by (simp add: resample_def)

lemma bucket_of_time:
  assumes w: "0 < (w::int)"
  shows "t div w * w \<le> t" and "t < t div w * w + w"
proof -
  have "0 \<le> t mod w" and "t mod w < w" using w by simp_all
  moreover have "t div w * w + t mod w = t" by simp
  ultimately show "t div w * w \<le> t" and "t < t div w * w + w" by linarith+
qed








lemma rule_width_pos: "0 < rule_width r"
  by (simp add: rule_width_def)

lemma metric_chart_unfold:
  assumes "dps md \<noteq> []"
  shows "\<exists>lo hi. list_min (map (datetime_of tz) (dps md)) = Some lo
     \<and> list_max (map (datetime_of tz) (dps md)) = Some hi
     \<and> metric_chart tz infos md =
         Some \<lparr> rule = resample_rule ((hi - lo) div 86400000 + 1),
                df_resampled =
                  resample tz (rule_width (resample_rule ((hi - lo) div 86400000 + 1))) (dps md),
                ylim = y_limits (unit_of infos md) (metric_name_of infos md) (dps md)
                         (resample tz (rule_width (resample_rule ((hi - lo) div 86400000 + 1)))
                            (dps md)) \<rparr>"
proof -
  from times_min_max [OF assms, of tz]
  obtain lo hi where l: "list_min (map (datetime_of tz) (dps md)) = Some lo"
    and h: "list_max (map (datetime_of tz) (dps md)) = Some hi" by blast
  have d: "date_range_days tz (dps md) = Some ((hi - lo) div 86400000 + 1)"
    by (simp add: date_range_days_def l h)
  have "metric_chart tz infos md =
         Some \<lparr> rule = resample_rule ((hi - lo) div 86400000 + 1),
                df_resampled =
                  resample tz (rule_width (resample_rule ((hi - lo) div 86400000 + 1))) (dps md),
                ylim = y_limits (unit_of infos md) (metric_name_of infos md) (dps md)
                         (resample tz (rule_width (resample_rule ((hi - lo) div 86400000 + 1)))
                            (dps md)) \<rparr>"
    by (simp add: metric_chart_def d Let_def)
  with l h show ?thesis by blast
qed

lemma pymin_Num: "pymin (Num a) (Num b) = Num (min a b)"
  by (simp add: pymin_def min_def)

text \<open>
  C2, as amended. For every non-empty series the frequency is chosen from the span in whole
  days, days = (max - min).days + 1: two hours when days \<le> 7, six hours when days \<le> 31,
  twelve hours otherwise. The resampled sequence has one row for each bucket of that width
  from the bucket of the first data point to the bucket of the last one; the value of a
  row is the arithmetic mean of the data points in its bucket \<open>[start, start + width)\<close>,
  and every data point lies in the bucket of a row. A bucket without data points keeps its
  row, with a missing value (NaN): it is neither interpolated nor filled with zero.
\<close>

theorem resample_spec:
  assumes ne: "dps md \<noteq> []"
  shows "\<exists>c lo hi w.
           metric_chart tz infos md = Some c
         \<and> list_min (map (datetime_of tz) (dps md)) = Some lo
         \<and> list_max (map (datetime_of tz) (dps md)) = Some hi
         \<and> rule c = (if (hi - lo) div 86400000 + 1 \<le> 7 then ''2H''
                      else if (hi - lo) div 86400000 + 1 \<le> 31 then ''6H'' else ''12H'')
         \<and> w = rule_width (rule c)
         \<and> w = (if (hi - lo) div 86400000 + 1 \<le> 7 then 2
                 else if (hi - lo) div 86400000 + 1 \<le> 31 then 6 else 12) * 3600000
         \<and> map fst (df_resampled c) = map (\<lambda>k. (lo div w + k) * w) [0..hi div w - lo div w]
         \<and> (\<forall>r \<in> set (df_resampled c).
               snd r = (if bucket_values tz w (fst r) (dps md) = [] then None
                        else Some (sum_list (bucket_values tz w (fst r) (dps md))
                                   / real (length (bucket_values tz w (fst r) (dps md))))))
         \<and> (\<forall>p \<in> set (dps md). \<exists>r \<in> set (df_resampled c).
               fst r \<le> datetime_of tz p \<and> datetime_of tz p < fst r + w)"
proof -
  from metric_chart_unfold [OF ne, of tz infos]
  obtain c lo hi where l: "list_min (map (datetime_of tz) (dps md)) = Some lo"
    and h: "list_max (map (datetime_of tz) (dps md)) = Some hi"
    and c: "metric_chart tz infos md = Some c"
    and r: "rule c = resample_rule ((hi - lo) div 86400000 + 1)"
    and rs: "df_resampled c = resample tz (rule_width (rule c)) (dps md)"
    by auto
  define w where "w = rule_width (rule c)"
  have wpos: "0 < w" unfolding w_def by (rule rule_width_pos)
  have r': "rule c = (if (hi - lo) div 86400000 + 1 \<le> 7 then ''2H''
                      else if (hi - lo) div 86400000 + 1 \<le> 31 then ''6H'' else ''12H'')"
    unfolding r resample_rule_def ..
  have w': "w = (if (hi - lo) div 86400000 + 1 \<le> 7 then 2
                 else if (hi - lo) div 86400000 + 1 \<le> 31 then 6 else 12) * 3600000"
    unfolding w_def r' by (simp add: rule_width_def)
  have rows: "df_resampled c =
           map (\<lambda>k. ((lo div w + k) * w,
                     series_mean (bucket_values tz w ((lo div w + k) * w) (dps md))))
               [0..hi div w - lo div w]"
    unfolding rs w_def [symmetric] by (rule resample_rows [OF l h])
  have labels: "map fst (df_resampled c) = map (\<lambda>k. (lo div w + k) * w) [0..hi div w - lo div w]"
    unfolding rows by (simp add: comp_def)
  have means: "\<forall>r \<in> set (df_resampled c).
               snd r = (if bucket_values tz w (fst r) (dps md) = [] then None
                        else Some (sum_list (bucket_values tz w (fst r) (dps md))
                                   / real (length (bucket_values tz w (fst r) (dps md)))))"
    unfolding rows by (auto simp: series_mean_def)
  from times_min_max [OF ne, of tz] l h
  have bd: "\<forall>p \<in> set (dps md). lo \<le> datetime_of tz p \<and> datetime_of tz p \<le> hi" by auto
  have cover: "\<forall>p \<in> set (dps md). \<exists>r \<in> set (df_resampled c).
               fst r \<le> datetime_of tz p \<and> datetime_of tz p < fst r + w"
  proof
    fix p assume p: "p \<in> set (dps md)"
    define t where "t = datetime_of tz p"
    from bd p have "lo \<le> t" "t \<le> hi" unfolding t_def by simp_all
    then have d: "lo div w \<le> t div w" "t div w \<le> hi div w"
      using wpos by (simp_all add: zdiv_mono1)
    define k where "k = t div w - lo div w"
    have "k \<in> set [0..hi div w - lo div w]" unfolding k_def using d by simp
    then have "((lo div w + k) * w,
                series_mean (bucket_values tz w ((lo div w + k) * w) (dps md)))
               \<in> set (df_resampled c)"
      unfolding rows by (simp only: set_map) (rule imageI)
    moreover have "(lo div w + k) * w = t div w * w" unfolding k_def by simp
    ultimately have "(t div w * w, series_mean (bucket_values tz w (t div w * w) (dps md)))
               \<in> set (df_resampled c)" by simp
    moreover have "t div w * w \<le> t" "t < t div w * w + w"
      using bucket_of_time [OF wpos, of t] by simp_all
    ultimately show "\<exists>r \<in> set (df_resampled c).
               fst r \<le> datetime_of tz p \<and> datetime_of tz p < fst r + w"
      unfolding t_def [symmetric] by force
  qed
  have wd: "w = rule_width (rule c)" by (simp add: w_def)
  from c l h r' wd w' labels means cover show ?thesis by blast
qed

lemma resample_example:
  "resample 0 7200000 [(0, 10), (3600000, 20), (18000000, 20)]
   = [(0, Some 15), (7200000, None), (14400000, Some 20)]"
proof -
  let ?df = "[(0, 10), (3600000, 20), (18000000, 20)] :: point list"
  have l: "list_min (map (datetime_of 0) ?df) = Some 0"
    by (simp add: list_min_def datetime_of_def)
  have h: "list_max (map (datetime_of 0) ?df) = Some 18000000"
    by (simp add: list_max_def datetime_of_def)
  have idx: "[0..18000000 div 7200000 - 0 div 7200000] = [0, 1, 2::int]"
    by (simp add: upto_rec1)
  show ?thesis
    unfolding resample_rows [OF l h] idx
    by (simp add: bucket_values_def datetime_of_def series_mean_def)
qed

lemma date_range_example:
  "date_range_days 0 [(0, 10), (3600000, 20), (18000000, 20)] = Some 1"
  by (simp add: date_range_days_def list_min_def list_max_def datetime_of_def)

lemma metric_chart_example:
  "metric_chart 0 [] \<lparr>metric = ''net'', dps = [(0, 10), (3600000, 20), (18000000, 20)]\<rparr>
   = Some \<lparr> rule = ''2H'',
            df_resampled = [(0, Some 15), (7200000, None), (14400000, Some 20)],
            ylim = y_limits '''' ''net'' [(0, 10), (3600000, 20), (18000000, 20)]
                     [(0, Some 15), (7200000, None), (14400000, Some 20)] \<rparr>"
  by (simp add: metric_chart_def date_range_example resample_rule_def rule_width_def
        resample_example unit_of_def metric_name_of_def lookup_info_def Let_def)

text \<open>
  Three data points in the first and the third two-hour bucket: the second bucket is empty
  and is a row of the resampled sequence all the same.
\<close>

theorem empty_bucket_counterexample:
  "bucket_values 0 7200000 7200000 [(0, 10), (3600000, 20), (18000000, 20)] = []
   \<and> map_option df_resampled
       (metric_chart 0 [] \<lparr>metric = ''net'', dps = [(0, 10), (3600000, 20), (18000000, 20)]\<rparr>)
     = Some [(0, Some 15), (7200000, None), (14400000, Some 20)]"
  by (simp add: metric_chart_example bucket_values_def datetime_of_def)

theorem resample_spec_witness:
  "dps \<lparr>metric = ''net'', dps = [(0, 10), (3600000, 20), (18000000, 20)]\<rparr> \<noteq> []
   \<and> (\<exists>c. metric_chart 0 []
              \<lparr>metric = ''net'', dps = [(0, 10), (3600000, 20), (18000000, 20)]\<rparr> = Some c
        \<and> rule c = ''2H''
        \<and> rule_width (rule c) = 2 * 3600000
        \<and> map fst (df_resampled c) = [0, 7200000, 14400000]
        \<and> bucket_values 0 (rule_width (rule c)) 0 [(0, 10), (3600000, 20), (18000000, 20)]
            = [10, 20]
        \<and> (0, Some 15) \<in> set (df_resampled c)
        \<and> (7200000, None) \<in> set (df_resampled c))"
proof -
  let ?md = "\<lparr>metric = ''net'', dps = [(0, 10), (3600000, 20), (18000000, 20)]\<rparr>"
  have ne: "dps ?md \<noteq> []" by simp
  from resample_spec [OF ne, of 0 "[]"]
  obtain c lo hi w where c: "metric_chart 0 [] ?md = Some c"
    and l: "list_min (map (datetime_of 0) (dps ?md)) = Some lo"
    and h: "list_max (map (datetime_of 0) (dps ?md)) = Some hi"
    and r: "rule c = (if (hi - lo) div 86400000 + 1 \<le> 7 then ''2H''
                      else if (hi - lo) div 86400000 + 1 \<le> 31 then ''6H'' else ''12H'')"
    and wd: "w = rule_width (rule c)"
    and w: "w = (if (hi - lo) div 86400000 + 1 \<le> 7 then 2
                 else if (hi - lo) div 86400000 + 1 \<le> 31 then 6 else 12) * 3600000"
    and lab: "map fst (df_resampled c) = map (\<lambda>k. (lo div w + k) * w) [0..hi div w - lo div w]"
    and mean: "\<forall>r \<in> set (df_resampled c).
               snd r = (if bucket_values 0 w (fst r) (dps ?md) = [] then None
                        else Some (sum_list (bucket_values 0 w (fst r) (dps ?md))
                                   / real (length (bucket_values 0 w (fst r) (dps ?md)))))"
    by blast
  from l have lo: "lo = 0" by (simp add: list_min_def datetime_of_def)
  from h have hi: "hi = 18000000" by (simp add: list_max_def datetime_of_def)
  have r2: "rule c = ''2H''" using r unfolding lo hi by simp
  have w2: "w = 7200000" using w unfolding lo hi by simp
  have rw: "rule_width (rule c) = 2 * 3600000" using wd w2 by simp
  have idx: "[0..18000000 div 7200000 - 0 div 7200000] = [0, 1, 2::int]"
    by (simp add: upto_rec1)
  have labels: "map fst (df_resampled c) = [0, 7200000, 14400000]"
    using lab unfolding lo hi w2 idx by simp
  have b0: "bucket_values 0 7200000 0 [(0, 10), (3600000, 20), (18000000, 20)] = [10, 20]"
    by (simp add: bucket_values_def datetime_of_def)
  have b1: "bucket_values 0 7200000 7200000 [(0, 10), (3600000, 20), (18000000, 20)] = []"
    by (simp add: bucket_values_def datetime_of_def)
  from labels obtain r0 r1 r2 where rows: "df_resampled c = [r0, r1, r2]"
    and f: "fst r0 = 0" "fst r1 = 7200000"
    by (auto simp: map_eq_Cons_conv)
  have "r0 \<in> set (df_resampled c)" "r1 \<in> set (df_resampled c)" unfolding rows by simp_all
  with mean have "snd r0 = (if bucket_values 0 w (fst r0) (dps ?md) = [] then None
                        else Some (sum_list (bucket_values 0 w (fst r0) (dps ?md))
                                   / real (length (bucket_values 0 w (fst r0) (dps ?md)))))"
    and "snd r1 = (if bucket_values 0 w (fst r1) (dps ?md) = [] then None
                        else Some (sum_list (bucket_values 0 w (fst r1) (dps ?md))
                                   / real (length (bucket_values 0 w (fst r1) (dps ?md)))))"
    by blast+
  then have "snd r0 = Some 15" "snd r1 = None" unfolding f w2 by (simp_all add: b0 b1)
  with f have "r0 = (0, Some 15)" "r1 = (7200000, None)" by (simp_all add: prod_eq_iff)
  then have m0: "(0, Some 15) \<in> set (df_resampled c)"
    and m1: "(7200000, None) \<in> set (df_resampled c)" unfolding rows by simp_all
  from c r2 labels m0 m1 ne show ?thesis by (simp add: rule_width_def b0)
qed

text \<open>
  C6. For a metric with data points whose unit is "%": when its display name is one of the
  two CPU and memory usage names, the Y axis goes from 0 to min(100, max_raw_value * 1.1),
  the product being the float product with the float 1.1 and max_raw_value the largest
  value of the raw series; otherwise it goes from 0 to 100 whatever the data.
\<close>

theorem percent_y_limits:
  assumes ne: "dps md \<noteq> []" and u: "unit_of infos md = ''%''"
  shows "\<exists>c max_raw_value.
           metric_chart tz infos md = Some c
         \<and> list_max (map snd (dps md)) = Some max_raw_value
         \<and> (\<forall>p \<in> set (dps md). snd p \<le> max_raw_value)
         \<and> (\<exists>p \<in> set (dps md). snd p = max_raw_value)
         \<and> ylim c = (if metric_name_of infos md = cpu_usage_name
                          \<or> metric_name_of infos md = memory_usage_name
                       then (Num 0, pymin (Num 100) (fmul (Num max_raw_value) (Num float_1_1)))
                       else (Num 0, Num 100))
         \<and> (\<forall>y. fmul (Num max_raw_value) (Num float_1_1) = Num y \<longrightarrow>
                pymin (Num 100) (fmul (Num max_raw_value) (Num float_1_1)) = Num (min 100 y))"
proof -
  from metric_chart_unfold [OF ne, of tz infos]
  obtain c where c: "metric_chart tz infos md = Some c"
    and y: "ylim c = y_limits (unit_of infos md) (metric_name_of infos md) (dps md)
                       (df_resampled c)"
    by auto
  have nv: "map snd (dps md) \<noteq> []" using ne by simp
  define mx where "mx = Max (set (map snd (dps md)))"
  have mx: "list_max (map snd (dps md)) = Some mx"
    unfolding mx_def by (rule list_max_Max [OF nv])
  have fin: "finite (set (map snd (dps md)))" by simp
  have ub: "\<forall>p \<in> set (dps md). snd p \<le> mx"
    unfolding mx_def using fin by (simp only: Max_ge set_map imageI ball_simps) auto
  have "mx \<in> set (map snd (dps md))" unfolding mx_def using nv by (intro Max_in) simp_all
  then have at: "\<exists>p \<in> set (dps md). snd p = mx" by auto
  have yl: "ylim c = (if metric_name_of infos md = cpu_usage_name
                          \<or> metric_name_of infos md = memory_usage_name
                       then (Num 0, pymin (Num 100) (fmul (Num mx) (Num float_1_1)))
                       else (Num 0, Num 100))"
    unfolding y y_limits_def u mx by (simp add: to_float_def Let_def)
  have rd: "\<forall>y. fmul (Num mx) (Num float_1_1) = Num y \<longrightarrow>
                pymin (Num 100) (fmul (Num mx) (Num float_1_1)) = Num (min 100 y)"
    by (simp add: pymin_Num)
  from c mx ub at yl rd show ?thesis by blast
qed

lemma times_example_50: "fmul (Num 50) (Num float_1_1) = Num (7740561859543041 / 140737488355328)"
  using round64_eval [of "- 47" "50 * float_1_1"]
  by (simp add: float_1_1_def round_half_even_def)

lemma times_example_95: "fmul (Num 95) (Num float_1_1) = Num (7353533766565889 / 70368744177664)"
  using round64_eval [of "- 46" "95 * float_1_1"]
  by (simp add: float_1_1_def round_half_even_def)

theorem percent_y_limits_witness:
  "dps \<lparr>metric = ''cpu_used'', dps = [(0, 50), (3600000, 40)]\<rparr> \<noteq> []
   \<and> unit_of [\<lparr>info_key = ''cpu_used'', info_name = Some cpu_usage_name, info_unit = Some ''%''\<rparr>]
        \<lparr>metric = ''cpu_used'', dps = [(0, 50), (3600000, 40)]\<rparr> = ''%''
   \<and> (\<exists>c. metric_chart 0
              [\<lparr>info_key = ''cpu_used'', info_name = Some cpu_usage_name, info_unit = Some ''%''\<rparr>]
              \<lparr>metric = ''cpu_used'', dps = [(0, 50), (3600000, 40)]\<rparr> = Some c
        \<and> ylim c = (Num 0, Num (7740561859543041 / 140737488355328)))
   \<and> (\<exists>c. metric_chart 0
              [\<lparr>info_key = ''mem_pct'', info_name = Some memory_usage_name, info_unit = Some ''%''\<rparr>]
              \<lparr>metric = ''mem_pct'', dps = [(0, 50), (3600000, 95)]\<rparr> = Some c
        \<and> ylim c = (Num 0, Num 100))
   \<and> (\<exists>c. metric_chart 0
              [\<lparr>info_key = ''fs_used'', info_name = Some ''Disk'', info_unit = Some ''%''\<rparr>]
              \<lparr>metric = ''fs_used'', dps = [(0, 3), (3600000, 4)]\<rparr> = Some c
        \<and> ylim c = (Num 0, Num 100))"
proof -
  let ?i1 = "[\<lparr>info_key = ''cpu_used'', info_name = Some cpu_usage_name, info_unit = Some ''%''\<rparr>]"
  let ?m1 = "\<lparr>metric = ''cpu_used'', dps = [(0, 50), (3600000, 40)]\<rparr>"
  let ?i2 = "[\<lparr>info_key = ''mem_pct'', info_name = Some memory_usage_name, info_unit = Some ''%''\<rparr>]"
  let ?m2 = "\<lparr>metric = ''mem_pct'', dps = [(0, 50), (3600000, 95)]\<rparr>"
  let ?i3 = "[\<lparr>info_key = ''fs_used'', info_name = Some ''Disk'', info_unit = Some ''%''\<rparr>]"
  let ?m3 = "\<lparr>metric = ''fs_used'', dps = [(0, 3), (3600000, 4)]\<rparr>"
  have ne1: "dps ?m1 \<noteq> []" and ne2: "dps ?m2 \<noteq> []" and ne3: "dps ?m3 \<noteq> []" by simp_all
  have u1: "unit_of ?i1 ?m1 = ''%''" and u2: "unit_of ?i2 ?m2 = ''%''"
    and u3: "unit_of ?i3 ?m3 = ''%''"
    by (simp_all add: unit_of_def lookup_info_def)
  have n1: "metric_name_of ?i1 ?m1 = cpu_usage_name"
    and n2: "metric_name_of ?i2 ?m2 = memory_usage_name"
    and n3: "metric_name_of ?i3 ?m3 = ''Disk''"
    by (simp_all add: metric_name_of_def lookup_info_def)
  have n3': "''Disk'' \<noteq> cpu_usage_name" "''Disk'' \<noteq> memory_usage_name"
    by (simp_all add: cpu_usage_name_def memory_usage_name_def usage_rate_def)
  from percent_y_limits [OF ne1 u1, of 0]
  obtain c1 x1 where c1: "metric_chart 0 ?i1 ?m1 = Some c1"
    and x1: "list_max (map snd (dps ?m1)) = Some x1"
    and y1: "ylim c1 = (if metric_name_of ?i1 ?m1 = cpu_usage_name
                          \<or> metric_name_of ?i1 ?m1 = memory_usage_name
                       then (Num 0, pymin (Num 100) (fmul (Num x1) (Num float_1_1)))
                       else (Num 0, Num 100))"
    by blast
  from x1 have e1: "x1 = 50" by (simp add: list_max_def)
  have r1: "ylim c1 = (Num 0, Num (7740561859543041 / 140737488355328))"
    unfolding y1 n1 e1 times_example_50 by (simp add: pymin_Num)
  from percent_y_limits [OF ne2 u2, of 0]
  obtain c2 x2 where c2: "metric_chart 0 ?i2 ?m2 = Some c2"
    and x2: "list_max (map snd (dps ?m2)) = Some x2"
    and y2: "ylim c2 = (if metric_name_of ?i2 ?m2 = cpu_usage_name
                          \<or> metric_name_of ?i2 ?m2 = memory_usage_name
                       then (Num 0, pymin (Num 100) (fmul (Num x2) (Num float_1_1)))
                       else (Num 0, Num 100))"
    by blast
  from x2 have e2: "x2 = 95" by (simp add: list_max_def)
  have r2: "ylim c2 = (Num 0, Num 100)"
    unfolding y2 n2 e2 times_example_95 by (simp add: pymin_Num)
  from percent_y_limits [OF ne3 u3, of 0]
  obtain c3 x3 where c3: "metric_chart 0 ?i3 ?m3 = Some c3"
    and y3: "ylim c3 = (if metric_name_of ?i3 ?m3 = cpu_usage_name
                          \<or> metric_name_of ?i3 ?m3 = memory_usage_name
                       then (Num 0, pymin (Num 100) (fmul (Num x3) (Num float_1_1)))
                       else (Num 0, Num 100))"
    by blast
  have r3: "ylim c3 = (Num 0, Num 100)"
    unfolding y3 n3 using n3' by simp
  from ne1 u1 c1 r1 c2 r2 c3 r3 show ?thesis by blast
qed



section \<open>Properties of the report runs\<close>






end
